theory Spec2Isabelle
  imports Complex_Main
begin

section \<open>Ratings with missing values\<close>

text \<open>
  The rating matrix of \<^verbatim>\<open>collaborative_filtering.py\<close> is a pandas pivot table of
  \<^verbatim>\<open>float64\<close> cells in which a pair (user, movie) without a rating holds NaN.
  A cell is modelled as either \<open>NaN\<close> or a real number: arithmetic is exact (rounding,
  overflow and infinities of IEEE doubles are not modelled), NaN is absorbing for every
  arithmetic operation, and every comparison with NaN is false, as in numpy.
\<close>

datatype fl = NaN | Fin real

datatype error = KeyError | IndexError

fun fl_add :: "fl \<Rightarrow> fl \<Rightarrow> fl" where
  "fl_add (Fin a) (Fin b) = Fin (a + b)"
| "fl_add _ _ = NaN"

fun fl_sub :: "fl \<Rightarrow> fl \<Rightarrow> fl" where
  "fl_sub (Fin a) (Fin b) = Fin (a - b)"
| "fl_sub _ _ = NaN"

fun fl_mul :: "fl \<Rightarrow> fl \<Rightarrow> fl" where
  "fl_mul (Fin a) (Fin b) = Fin (a * b)"
| "fl_mul _ _ = NaN"

text \<open>
  Division of numpy scalars does not raise: \<open>0 / 0\<close> is NaN. A non-zero numerator over
  zero (an infinity in IEEE arithmetic) does not arise where \<open>fl_div\<close> is used below:
  a mean divides by a positive length, and in the correlation a zero denominator forces
  a zero numerator.
\<close>

fun fl_div :: "fl \<Rightarrow> fl \<Rightarrow> fl" where
  "fl_div (Fin a) (Fin b) = (if b = 0 then NaN else Fin (a / b))"
| "fl_div _ _ = NaN"

fun fl_sqrt :: "fl \<Rightarrow> fl" where
  "fl_sqrt (Fin a) = (if a < 0 then NaN else Fin (sqrt a))"
| "fl_sqrt NaN = NaN"

text \<open>The test \<^verbatim>\<open>x > 0\<close> of the source: false on NaN.\<close>

fun fl_pos :: "fl \<Rightarrow> bool" where
  "fl_pos (Fin a) = (0 < a)"
| "fl_pos NaN = False"

text \<open>The comparison \<^verbatim>\<open>x == y\<close> of two floats: false as soon as one of them is NaN.\<close>

fun fl_eq :: "fl \<Rightarrow> fl \<Rightarrow> bool" where
  "fl_eq (Fin a) (Fin b) = (a = b)"
| "fl_eq _ _ = False"

definition fl_sum :: "fl list \<Rightarrow> fl" where
  "fl_sum xs = foldr fl_add xs (Fin 0)"

text \<open>\<^verbatim>\<open>np.nanmean\<close>: the mean of the entries that are not NaN, and NaN when there are none.\<close>

fun present :: "fl list \<Rightarrow> real list" where
  "present [] = []"
| "present (NaN # xs) = present xs"
| "present (Fin r # xs) = r # present xs"

definition nanmean :: "fl list \<Rightarrow> fl" where
  "nanmean xs =
     (let ys = present xs
      in if ys = [] then NaN else Fin (sum_list ys / real (length ys)))"

section \<open>Similarity of two users\<close>

text \<open>
  \<^verbatim>\<open>scipy.spatial.distance.correlation(u, v)\<close> is library code; it is modelled from its
  definition, \<open>1 - (u - mean u) \<bullet> (v - mean v) / (\<parallel>u - mean u\<parallel> * \<parallel>v - mean v\<parallel>)\<close>, as scipy
  computes it with \<^verbatim>\<open>np.average\<close>: the average of an empty array is NaN.
\<close>

definition fl_average :: "fl list \<Rightarrow> fl" where
  "fl_average xs = (if xs = [] then NaN else fl_div (fl_sum xs) (Fin (real (length xs))))"

definition correlation :: "fl list \<Rightarrow> fl list \<Rightarrow> fl" where
  "correlation u v =
     (let umu = fl_average u;
          vmu = fl_average v;
          um = map (\<lambda>x. fl_sub x umu) u;
          vm = map (\<lambda>x. fl_sub x vmu) v;
          uv = fl_average (map2 fl_mul um vm);
          uu = fl_average (map (\<lambda>x. fl_mul x x) um);
          vv = fl_average (map (\<lambda>x. fl_mul x x) vm)
      in fl_sub (Fin 1) (fl_div uv (fl_sqrt (fl_mul uu vv))))"

text \<open>\<^verbatim>\<open>np.array(user) - np.nanmean(user)\<close>\<close>

definition center :: "fl list \<Rightarrow> fl list" where
  "center user = map (\<lambda>x. fl_sub x (nanmean user)) user"

text \<open>
  The comprehension
  \<^verbatim>\<open>[i for i in range(len(user_1)) if user_1[i] > 0 and user_2[i] > 0]\<close>
  over the positions \<open>is\<close>. The conjunction is short-circuit, so \<^verbatim>\<open>user_2[i]\<close> is read
  only where \<^verbatim>\<open>user_1[i] > 0\<close>, and reading a numpy array past its end raises IndexError.
\<close>

fun common_movieIDs :: "fl list \<Rightarrow> fl list \<Rightarrow> nat list \<Rightarrow> error + nat list" where
  "common_movieIDs u1 u2 [] = Inr []"
| "common_movieIDs u1 u2 (i # is) =
     (if fl_pos (u1 ! i) then
        (if length u2 \<le> i then Inl IndexError
         else (case common_movieIDs u1 u2 is of
                 Inl e \<Rightarrow> Inl e
               | Inr cs \<Rightarrow> Inr (if fl_pos (u2 ! i) then i # cs else cs)))
      else common_movieIDs u1 u2 is)"

text \<open>
  The source tests \<^verbatim>\<open>common_movieIDs == 0\<close>, a list against the integer 0. In Python a
  list and an integer are never equal, whatever the list holds.
\<close>

definition py_list_eq_int :: "nat list \<Rightarrow> int \<Rightarrow> bool" where
  "py_list_eq_int xs n = False"

definition find_similarity :: "fl list \<Rightarrow> fl list \<Rightarrow> error + fl" where
  "find_similarity user_1 user_2 =
     (let u1 = center user_1;
          u2 = center user_2
      in case common_movieIDs u1 u2 [0..<length u1] of
           Inl e \<Rightarrow> Inl e
         | Inr common \<Rightarrow>
             if py_list_eq_int common 0 then Inr (Fin 0)
             else Inr (correlation (map (\<lambda>i. u1 ! i) common) (map (\<lambda>i. u2 ! i) common)))"

text \<open>
  The co-rated index set in the words of the specification: the positions where both
  centered values are strictly positive.
\<close>

definition co_rated :: "fl list \<Rightarrow> fl list \<Rightarrow> nat list" where
  "co_rated c1 c2 = filter (\<lambda>i. fl_pos (c1 ! i) \<and> fl_pos (c2 ! i)) [0..<length c1]"

section \<open>The rating matrix and library operations on frames\<close>

text \<open>
  \<^verbatim>\<open>user_item_rating_matrix\<close> is the pivot table of the ratings: its row labels are the
  user IDs, its column labels the movie IDs, both without repetition, and \<open>cell R u m\<close>
  is the entry of user \<open>u\<close> for movie \<open>m\<close>. The source reads it as a global; here it is
  an argument. \<^verbatim>\<open>R.loc[u]\<close> is the row of \<open>u\<close> in column order and raises KeyError for
  a label that is not in the index.
\<close>

record frame =
  index :: "int list"
  columns :: "int list"
  cell :: "int \<Rightarrow> int \<Rightarrow> fl"

definition row_of :: "frame \<Rightarrow> int \<Rightarrow> fl list" where
  "row_of R u = map (cell R u) (columns R)"

definition loc_row :: "frame \<Rightarrow> int \<Rightarrow> error + fl list" where
  "loc_row R u = (if u \<in> set (index R) then Inr (row_of R u) else Inl KeyError)"

fun fl_isnan :: "fl \<Rightarrow> bool" where
  "fl_isnan NaN = True"
| "fl_isnan (Fin a) = False"

fun fin_val :: "fl \<Rightarrow> real" where
  "fin_val (Fin a) = a"
| "fin_val NaN = 0"

text \<open>
  \<^verbatim>\<open>pd.DataFrame.sort_values(df, [col], ascending=[0])\<close> on a one-column frame, given as
  its rows (label, value): descending by value, the NaN rows last. pandas does not fix
  the order of rows with equal values for its default sorting kind; the model keeps them
  in their original order (a stable sort), and no property below depends on that choice.
\<close>

definition sort_values_desc :: "('a \<times> fl) list \<Rightarrow> ('a \<times> fl) list" where
  "sort_values_desc rows =
     sort_key (\<lambda>r. - fin_val (snd r)) (filter (\<lambda>r. \<not> fl_isnan (snd r)) rows)
       @ filter (\<lambda>r. fl_isnan (snd r)) rows"

text \<open>The slice \<^verbatim>\<open>xs[:n]\<close>; a negative \<open>n\<close> drops the last \<open>-n\<close> elements.\<close>

definition py_take :: "int \<Rightarrow> 'a list \<Rightarrow> 'a list" where
  "py_take n xs = (if 0 \<le> n then take (nat n) xs else take (length xs - nat (- n)) xs)"

section \<open>Nearest neighbours\<close>

text \<open>
  The first loop of \<^verbatim>\<open>find_nearest_neighbour_ratings\<close>: one row (user, similarity to the
  active user) for each label of the index.
\<close>

fun similarity_matrix :: "frame \<Rightarrow> int \<Rightarrow> int list \<Rightarrow> error + (int \<times> fl) list" where
  "similarity_matrix R active_user [] = Inr []"
| "similarity_matrix R active_user (i # is) =
     (case loc_row R active_user of
        Inl e \<Rightarrow> Inl e
      | Inr ua \<Rightarrow>
          (case loc_row R i of
             Inl e \<Rightarrow> Inl e
           | Inr ui \<Rightarrow>
               (case find_similarity ua ui of
                  Inl e \<Rightarrow> Inl e
                | Inr s \<Rightarrow>
                    (case similarity_matrix R active_user is of
                       Inl e \<Rightarrow> Inl e
                     | Inr rest \<Rightarrow> Inr ((i, s) # rest)))))"

definition nearest_neighbours :: "frame \<Rightarrow> int \<Rightarrow> int \<Rightarrow> error + (int \<times> fl) list" where
  "nearest_neighbours R active_user k =
     (case similarity_matrix R active_user (index R) of
        Inl e \<Rightarrow> Inl e
      | Inr sims \<Rightarrow> Inr (py_take k (sort_values_desc sims)))"

text \<open>
  The inner loop over the neighbours \<open>j\<close> for one movie \<open>i\<close>, with the running
  \<^verbatim>\<open>predicted_rating\<close> as accumulator. The neighbours are rows of the matrix, so
  \<^verbatim>\<open>R.loc[j]\<close> does not fail.
\<close>

fun neighbour_loop :: "frame \<Rightarrow> (int \<times> fl) list \<Rightarrow> int \<Rightarrow> fl \<Rightarrow> fl" where
  "neighbour_loop R [] i predicted_rating = predicted_rating"
| "neighbour_loop R ((j, s) # nn) i predicted_rating =
     neighbour_loop R nn i
       (if fl_pos (cell R j i)
        then fl_add predicted_rating
               (fl_mul (fl_sub (cell R j i) (nanmean (row_of R j))) s)
        else predicted_rating)"

text \<open>The outer loop over the movies: one row (movie, predicted rating) per column.\<close>

fun predicted_ratings :: "frame \<Rightarrow> int \<Rightarrow> (int \<times> fl) list \<Rightarrow> int list \<Rightarrow> error + (int \<times> fl) list" where
  "predicted_ratings R active_user nn [] = Inr []"
| "predicted_ratings R active_user nn (i # is) =
     (case loc_row R active_user of
        Inl e \<Rightarrow> Inl e
      | Inr ua \<Rightarrow>
          (case predicted_ratings R active_user nn is of
             Inl e \<Rightarrow> Inl e
           | Inr rest \<Rightarrow> Inr ((i, neighbour_loop R nn i (nanmean ua)) # rest)))"

definition find_nearest_neighbour_ratings :: "frame \<Rightarrow> int \<Rightarrow> int \<Rightarrow> error + (int \<times> fl) list" where
  "find_nearest_neighbour_ratings R active_user k =
     (case nearest_neighbours R active_user k of
        Inl e \<Rightarrow> Inl e
      | Inr nn \<Rightarrow> predicted_ratings R active_user nn (columns R))"

section \<open>Top-n recommendations\<close>

text \<open>
  \<^verbatim>\<open>find_top_n_recommendations\<close> up to the variable \<^verbatim>\<open>top_recommendations\<close>: the
  predictions of the 10 nearest neighbours, without the movies whose rating by the active
  user passes the test \<^verbatim>\<open>> 0\<close>, sorted descending and cut to \<open>n\<close> rows.
\<close>

definition watched_movies :: "frame \<Rightarrow> int \<Rightarrow> int list" where
  "watched_movies R active_user = filter (\<lambda>m. fl_pos (cell R active_user m)) (columns R)"

definition top_recommendations :: "frame \<Rightarrow> int \<Rightarrow> int \<Rightarrow> error + (int \<times> fl) list" where
  "top_recommendations R active_user n =
     (case find_nearest_neighbour_ratings R active_user 10 of
        Inl e \<Rightarrow> Inl e
      | Inr predicted \<Rightarrow>
          (case loc_row R active_user of
             Inl e \<Rightarrow> Inl e
           | Inr ua \<Rightarrow>
               Inr (py_take n (sort_values_desc
                      (filter (\<lambda>r. fst r \<notin> set (watched_movies R active_user)) predicted)))))"

text \<open>
  \<^verbatim>\<open>movies_data\<close> is the table of rows (movieID, title), in the order of the file. The
  result is \<^verbatim>\<open>movies_data.loc[movies_data.movieID.isin(top_recommendations.index)]\<close>,
  reduced to its titles: the rows of the movie table whose ID was selected, in the order
  of the movie table.
\<close>

definition find_top_n_recommendations ::
  "frame \<Rightarrow> (int \<times> string) list \<Rightarrow> int \<Rightarrow> int \<Rightarrow> error + string list" where
  "find_top_n_recommendations R movies_data active_user n =
     (case top_recommendations R active_user n of
        Inl e \<Rightarrow> Inl e
      | Inr selected \<Rightarrow>
          Inr (map snd (filter (\<lambda>row. fst row \<in> set (map fst selected)) movies_data)))"

text \<open>
  Descending order of a column of predicted values, NaN last: each value is at least
  every later value that is a number.
\<close>

fun fl_ge :: "fl \<Rightarrow> fl \<Rightarrow> bool" where
  "fl_ge (Fin a) (Fin b) = (b \<le> a)"
| "fl_ge NaN (Fin b) = False"
| "fl_ge x NaN = True"

definition descending :: "fl list \<Rightarrow> bool" where
  "descending vs = sorted_wrt fl_ge vs"

text \<open>
  The prediction in the words of the specification: the active user's mean, plus a term
  for each selected neighbour that has rated the movie (whose entry is not missing).
\<close>

definition spec_prediction :: "frame \<Rightarrow> int \<Rightarrow> (int \<times> fl) list \<Rightarrow> int \<Rightarrow> fl" where
  "spec_prediction R active_user nn i =
     fl_add (nanmean (row_of R active_user))
       (fl_sum (map (\<lambda>r. fl_mul (snd r) (fl_sub (cell R (fst r) i) (nanmean (row_of R (fst r)))))
                  (filter (\<lambda>r. \<not> fl_isnan (cell R (fst r) i)) nn)))"

text \<open>
  The prediction with the source's test: the active user's mean, plus a term for each
  selected neighbour whose entry for the movie passes \<^verbatim>\<open>> 0\<close>.
\<close>

definition positive_prediction :: "frame \<Rightarrow> int \<Rightarrow> (int \<times> fl) list \<Rightarrow> int \<Rightarrow> fl" where
  "positive_prediction R active_user nn i =
     fl_add (nanmean (row_of R active_user))
       (fl_sum (map (\<lambda>r. fl_mul (snd r) (fl_sub (cell R (fst r) i) (nanmean (row_of R (fst r)))))
                  (filter (\<lambda>r. fl_pos (cell R (fst r) i)) nn)))"

section \<open>Matrix factorization\<close>

text \<open>
  The factor matrices \<^verbatim>\<open>P\<close> and \<^verbatim>\<open>Q\<close> are frames with a row of \<open>K\<close> numbers per
  label: \<open>vec_at P i\<close> is \<^verbatim>\<open>P.loc[i]\<close>. They start from \<^verbatim>\<open>np.random.rand\<close>, whose
  numbers are not NaN, and exact arithmetic keeps them so: their entries are reals.
\<close>

type_synonym vec = "real list"

record factors =
  labels :: "int list"
  vec_at :: "int \<Rightarrow> vec"

definition dot :: "vec \<Rightarrow> vec \<Rightarrow> real" where
  "dot u v = sum_list (map2 (*) u v)"

definition vadd :: "vec \<Rightarrow> vec \<Rightarrow> vec" where
  "vadd u v = map2 (+) u v"

definition vsub :: "vec \<Rightarrow> vec \<Rightarrow> vec" where
  "vsub u v = map2 (-) u v"

definition smul :: "real \<Rightarrow> vec \<Rightarrow> vec" where
  "smul c v = map ((*) c) v"

text \<open>\<^verbatim>\<open>np.linalg.norm\<close> of a vector.\<close>

definition linalg_norm :: "vec \<Rightarrow> real" where
  "linalg_norm v = sqrt (sum_list (map (\<lambda>x. x * x) v))"

text \<open>
  \<^verbatim>\<open>pd.DataFrame(np.random.rand(N, K), index=ls)\<close>: row number \<open>r\<close> of the random array
  gets the \<open>r\<close>-th label. The random numbers are a parameter, \<open>rnd r c\<close> for row \<open>r\<close> and
  column \<open>c\<close>.
\<close>

fun position :: "int \<Rightarrow> int list \<Rightarrow> nat" where
  "position l [] = 0"
| "position l (x # xs) = (if x = l then 0 else Suc (position l xs))"

definition random_frame :: "(nat \<Rightarrow> nat \<Rightarrow> real) \<Rightarrow> int list \<Rightarrow> nat \<Rightarrow> factors" where
  "random_frame rnd ls K =
     \<lparr>labels = ls, vec_at = (\<lambda>l. map (rnd (position l ls)) [0..<K])\<rparr>"

text \<open>
  The state of the training: the rating matrix \<^verbatim>\<open>R\<close>, which the source only reads, and
  the two factor matrices, which it updates in place.
\<close>

record mf_state =
  R_of :: frame
  P_of :: factors
  Q_of :: factors

text \<open>The body of the two inner loops for the entry of user \<open>i\<close> and movie \<open>j\<close>.\<close>

definition sgd_update :: "real \<Rightarrow> real \<Rightarrow> int \<Rightarrow> int \<Rightarrow> mf_state \<Rightarrow> mf_state" where
  "sgd_update gamma lamda i j s =
     (if fl_pos (cell (R_of s) i j) then
        (let eij = fin_val (cell (R_of s) i j) - dot (vec_at (P_of s) i) (vec_at (Q_of s) j);
             P = (P_of s)\<lparr>vec_at := (vec_at (P_of s))
                    (i := vadd (vec_at (P_of s) i)
                            (smul gamma (vsub (smul eij (vec_at (Q_of s) j))
                                              (smul lamda (vec_at (P_of s) i)))))\<rparr>;
             Q = (Q_of s)\<lparr>vec_at := (vec_at (Q_of s))
                    (j := vadd (vec_at (Q_of s) j)
                            (smul gamma (vsub (smul eij (vec_at P i))
                                              (smul lamda (vec_at (Q_of s) j)))))\<rparr>
         in s\<lparr>P_of := P, Q_of := Q\<rparr>)
      else s)"

definition sgd_epoch :: "real \<Rightarrow> real \<Rightarrow> mf_state \<Rightarrow> mf_state" where
  "sgd_epoch gamma lamda s =
     foldl (\<lambda>s i. foldl (\<lambda>s j. sgd_update gamma lamda i j s) s (columns (R_of s)))
       s (index (R_of s))"

text \<open>The error function \<^verbatim>\<open>e\<close> computed after the epoch.\<close>

definition objective_term :: "real \<Rightarrow> mf_state \<Rightarrow> int \<Rightarrow> int \<Rightarrow> real \<Rightarrow> real" where
  "objective_term lamda s i j e =
     (if fl_pos (cell (R_of s) i j) then
        e + (fin_val (cell (R_of s) i j) - dot (vec_at (P_of s) i) (vec_at (Q_of s) j))\<^sup>2
          + lamda * ((linalg_norm (vec_at (P_of s) i))\<^sup>2 + (linalg_norm (vec_at (Q_of s) j))\<^sup>2)
      else e)"

definition objective :: "real \<Rightarrow> mf_state \<Rightarrow> real" where
  "objective lamda s =
     foldl (\<lambda>e i. foldl (\<lambda>e j. objective_term lamda s i j e) e (columns (R_of s)))
       0 (index (R_of s))"

text \<open>
  The loop \<^verbatim>\<open>for step in range(steps)\<close> with its \<^verbatim>\<open>break\<close>; the first argument is the
  number of steps that remain.
\<close>

fun sgd_loop :: "nat \<Rightarrow> real \<Rightarrow> real \<Rightarrow> mf_state \<Rightarrow> mf_state" where
  "sgd_loop 0 gamma lamda s = s"
| "sgd_loop (Suc n) gamma lamda s =
     (let s' = sgd_epoch gamma lamda s
      in if objective lamda s' < 0.001 then s' else sgd_loop n gamma lamda s')"

text \<open>
  \<^verbatim>\<open>perform_matrix_factorization(R, K, steps=10, gamma=0.001, lamda=0.02)\<close>. The number
  of factors \<open>K\<close> is a natural number (\<^verbatim>\<open>np.random.rand\<close> takes no negative dimension);
  \<^verbatim>\<open>range(steps)\<close> is empty for a negative \<open>steps\<close>. \<open>train\<close> is the function up to its
  \<^verbatim>\<open>return\<close>, with the rating matrix in the state; the function returns the pair
  \<^verbatim>\<open>P, Q\<close>.
\<close>

definition initial_state :: "frame \<Rightarrow> nat \<Rightarrow> (nat \<Rightarrow> nat \<Rightarrow> real) \<Rightarrow> (nat \<Rightarrow> nat \<Rightarrow> real) \<Rightarrow> mf_state" where
  "initial_state R K rnd_P rnd_Q =
     \<lparr>R_of = R, P_of = random_frame rnd_P (index R) K, Q_of = random_frame rnd_Q (columns R) K\<rparr>"

definition train ::
  "frame \<Rightarrow> nat \<Rightarrow> int \<Rightarrow> real \<Rightarrow> real \<Rightarrow> (nat \<Rightarrow> nat \<Rightarrow> real) \<Rightarrow> (nat \<Rightarrow> nat \<Rightarrow> real) \<Rightarrow> mf_state" where
  "train R K steps gamma lamda rnd_P rnd_Q =
     sgd_loop (nat steps) gamma lamda (initial_state R K rnd_P rnd_Q)"

definition perform_matrix_factorization ::
  "frame \<Rightarrow> nat \<Rightarrow> int \<Rightarrow> real \<Rightarrow> real \<Rightarrow> (nat \<Rightarrow> nat \<Rightarrow> real) \<Rightarrow> (nat \<Rightarrow> nat \<Rightarrow> real)
     \<Rightarrow> factors \<times> factors" where
  "perform_matrix_factorization R K steps gamma lamda rnd_P rnd_Q =
     (let s = train R K steps gamma lamda rnd_P rnd_Q in (P_of s, Q_of s))"

text \<open>
  The objective in the words of the specification: the sum over the known ratings, the
  entries that are not missing.
\<close>

definition spec_objective :: "real \<Rightarrow> mf_state \<Rightarrow> real" where
  "spec_objective lamda s =
     sum_list (concat (map (\<lambda>i. map (\<lambda>j.
         (fin_val (cell (R_of s) i j) - dot (vec_at (P_of s) i) (vec_at (Q_of s) j))\<^sup>2
           + lamda * (sum_list (map (\<lambda>x. x\<^sup>2) (vec_at (P_of s) i))
                      + sum_list (map (\<lambda>x. x\<^sup>2) (vec_at (Q_of s) j))))
       (filter (\<lambda>j. \<not> fl_isnan (cell (R_of s) i j)) (columns (R_of s)))) (index (R_of s))))"

text \<open>The rating matrix with every entry that fails the test \<^verbatim>\<open>> 0\<close> made missing.\<close>

definition mask_nonpositive :: "frame \<Rightarrow> frame" where
  "mask_nonpositive R = R\<lparr>cell := (\<lambda>i j. if fl_pos (cell R i j) then cell R i j else NaN)\<rparr>"

text \<open>The rating matrix with the entry of user \<open>u\<close> for movie \<open>m\<close> made missing.\<close>

definition set_missing :: "frame \<Rightarrow> int \<Rightarrow> int \<Rightarrow> frame" where
  "set_missing R u m = R\<lparr>cell := (cell R)(u := (cell R u)(m := NaN))\<rparr>"

text \<open>The shape of the factor matrices for a rating matrix \<open>R\<close> and \<open>K\<close> factors.\<close>

definition shape_ok :: "frame \<Rightarrow> nat \<Rightarrow> mf_state \<Rightarrow> bool" where
  "shape_ok R K s \<longleftrightarrow>
     labels (P_of s) = index R \<and> labels (Q_of s) = columns R \<and>
     list_all (\<lambda>i. length (vec_at (P_of s) i) = K) (index R) \<and>
     list_all (\<lambda>j. length (vec_at (Q_of s) j) = K) (columns R)"

text \<open>
  The objective as a sum, over the entries that pass the source's test \<^verbatim>\<open>> 0\<close>, of
  the squared error plus the regularization times the squared norms of the two factor
  vectors.
\<close>

definition positive_objective :: "real \<Rightarrow> mf_state \<Rightarrow> real" where
  "positive_objective lamda s =
     sum_list (concat (map (\<lambda>i. map (\<lambda>j.
         (fin_val (cell (R_of s) i j) - dot (vec_at (P_of s) i) (vec_at (Q_of s) j))\<^sup>2
           + lamda * (sum_list (map (\<lambda>x. x\<^sup>2) (vec_at (P_of s) i))
                      + sum_list (map (\<lambda>x. x\<^sup>2) (vec_at (Q_of s) j))))
       (filter (\<lambda>j. fl_pos (cell (R_of s) i j)) (columns (R_of s)))) (index (R_of s))))"

text \<open>What every step of the training keeps: the rating matrix and the shape.\<close>

definition training_invariant :: "frame \<Rightarrow> nat \<Rightarrow> mf_state \<Rightarrow> bool" where
  "training_invariant R K s \<longleftrightarrow> R_of s = R \<and> shape_ok R K s"

section \<open>Example inputs\<close>

text \<open>
  A frame from its rows. Two small rating matrices with users 1 and 2 and movies 1 to 5:
  user 1 has rated the movies 1, 2 and 3; in \<open>ratings_B\<close> user 2 has given movie 4 the
  rating 0.
\<close>

definition frame_of_rows :: "int list \<Rightarrow> int list \<Rightarrow> fl list list \<Rightarrow> frame" where
  "frame_of_rows us ms rows =
     \<lparr>index = us, columns = ms,
      cell = (\<lambda>u m. if u \<in> set us \<and> m \<in> set ms then rows ! position u us ! position m ms else NaN)\<rparr>"

definition ratings_A :: frame where
  "ratings_A = frame_of_rows [1, 2] [1, 2, 3, 4, 5]
     [[Fin 1, Fin 5, Fin 6, NaN, NaN], [Fin 1, Fin 6, Fin 5, Fin 1, Fin 2]]"

definition ratings_B :: frame where
  "ratings_B = frame_of_rows [1, 2] [1, 2, 3, 4, 5]
     [[Fin 1, Fin 5, Fin 6, NaN, NaN], [Fin 2, Fin 6, Fin 5, Fin 0, Fin 2]]"

text \<open>
  Two rating matrices with one user and one movie, the rating being 0 and 3, and a
  random source that returns the same number everywhere.
\<close>

definition const_rand :: "real \<Rightarrow> nat \<Rightarrow> nat \<Rightarrow> real" where
  "const_rand c r k = c"

definition ratings_C :: frame where
  "ratings_C = frame_of_rows [1] [1] [[Fin 0]]"

definition ratings_D :: frame where
  "ratings_D = frame_of_rows [1] [1] [[Fin 3]]"

section \<open>Properties of the similarity\<close>

lemma common_movieIDs_filter:
  "\<forall>i \<in> set is. i < length u2 \<Longrightarrow>
   common_movieIDs u1 u2 is = Inr (filter (\<lambda>i. fl_pos (u1 ! i) \<and> fl_pos (u2 ! i)) is)"
  by (induction "is") auto

lemma common_movieIDs_co_rated:
  assumes "length u1 = length u2"
  shows "common_movieIDs u1 u2 [0..<length u1] = Inr (co_rated u1 u2)"
  unfolding co_rated_def using assms by (intro common_movieIDs_filter) simp

lemma length_center [simp]: "length (center u) = length u"
  by (simp add: center_def)

lemma fl_mul_commute: "fl_mul a b = fl_mul b a"
  by (cases a; cases b) simp_all

lemma map2_fl_mul_commute: "map2 fl_mul xs ys = map2 fl_mul ys xs"
proof (induction xs arbitrary: ys)
  case Nil
  then show ?case by simp
next
  case (Cons x xs)
  then show ?case by (cases ys) (simp_all add: fl_mul_commute)
qed

lemma correlation_commute: "correlation u v = correlation v u"
  by (simp add: correlation_def Let_def map2_fl_mul_commute fl_mul_commute)

lemma co_rated_commute:
  assumes "length c1 = length c2"
  shows "co_rated c1 c2 = co_rated c2 c1"
  unfolding co_rated_def using assms by (auto intro: filter_cong)

lemma find_similarity_co_rated:
  assumes "length user_1 = length user_2"
  shows "find_similarity user_1 user_2 =
           Inr (correlation (map (\<lambda>i. center user_1 ! i) (co_rated (center user_1) (center user_2)))
                            (map (\<lambda>i. center user_2 ! i) (co_rated (center user_1) (center user_2))))"
proof -
  have "length (center user_1) = length (center user_2)"
    using assms by simp
  then have "common_movieIDs (center user_1) (center user_2) [0..<length (center user_1)]
               = Inr (co_rated (center user_1) (center user_2))"
    by (rule common_movieIDs_co_rated)
  then show ?thesis
    by (simp add: find_similarity_def Let_def py_list_eq_int_def del: length_center)
qed

lemma upt_5: "[0..<5] = [0, 1, 2, 3, 4]"
  by (simp add: upt_rec)

lemma center_example_1:
  "center [Fin 1, Fin 5, Fin 6, NaN, NaN] = [Fin (- 3), Fin 1, Fin 2, NaN, NaN]"
  by (simp add: center_def nanmean_def)

lemma center_example_2:
  "center [Fin 1, Fin 6, Fin 5, Fin 1, Fin 2] = [Fin (- 2), Fin 3, Fin 2, Fin (- 2), Fin (- 1)]"
  by (simp add: center_def nanmean_def)

lemma co_rated_example:
  "co_rated [Fin (- 3), Fin 1, Fin 2, NaN, NaN] [Fin (- 2), Fin 3, Fin 2, Fin (- 2), Fin (- 1)]
     = [1, 2]"
  by (simp add: co_rated_def upt_5)

lemma co_rated_example_swapped:
  "co_rated [Fin (- 2), Fin 3, Fin 2, Fin (- 2), Fin (- 1)] [Fin (- 3), Fin 1, Fin 2, NaN, NaN]
     = [1, 2]"
  by (simp add: co_rated_def upt_5)

lemma correlation_example: "correlation [Fin 1, Fin 2] [Fin 3, Fin 2] = Fin 2"
  by (simp add: correlation_def fl_average_def fl_sum_def Let_def real_sqrt_divide)

text \<open>
  C1. Claimed: when the co-rated index set is empty, the similarity is 0. The branch that
  returns 0 is guarded by \<^verbatim>\<open>common_movieIDs == 0\<close>, which compares the list with an
  integer and is never true, so the similarity of two users without a co-rated position is
  the correlation of two empty vectors, which is NaN. For the ratings \<open>[1, 2]\<close> and
  \<open>[2, 1]\<close> the centered vectors are \<open>[-1/2, 1/2]\<close> and \<open>[1/2, -1/2]\<close>, no position is
  positive in both, and the result is NaN, not 0.
\<close>

theorem find_similarity_empty_co_rated_nan:
  "common_movieIDs (center [Fin 1, Fin 2]) (center [Fin 2, Fin 1]) [0..<length (center [Fin 1, Fin 2])] = Inr []
   \<and> find_similarity [Fin 1, Fin 2] [Fin 2, Fin 1] = Inr NaN
   \<and> find_similarity [Fin 1, Fin 2] [Fin 2, Fin 1] \<noteq> Inr (Fin 0)"
  by (simp add: find_similarity_def center_def nanmean_def correlation_def
      fl_average_def py_list_eq_int_def Let_def upt_rec)

text \<open>
  C4. For two rating vectors of the same length (two rows of the rating matrix), the
  similarity centers each vector by subtracting its own mean over its entries that are
  not missing, keeps exactly the positions where both centered values are strictly
  positive, and is the correlation distance of the two centered vectors restricted to
  these positions.
\<close>

theorem find_similarity_centers_then_restricts:
  assumes "length user_1 = length user_2"
  shows "find_similarity user_1 user_2 =
           Inr (correlation (map (\<lambda>i. center user_1 ! i) (co_rated (center user_1) (center user_2)))
                            (map (\<lambda>i. center user_2 ! i) (co_rated (center user_1) (center user_2))))
         \<and> center user_1 = map (\<lambda>x. fl_sub x (nanmean user_1)) user_1
         \<and> center user_2 = map (\<lambda>x. fl_sub x (nanmean user_2)) user_2
         \<and> nanmean user_1 = (if present user_1 = [] then NaN
                              else Fin (sum_list (present user_1) / real (length (present user_1))))
         \<and> nanmean user_2 = (if present user_2 = [] then NaN
                              else Fin (sum_list (present user_2) / real (length (present user_2))))
         \<and> set (co_rated (center user_1) (center user_2)) =
             {i. i < length user_1 \<and> fl_pos (center user_1 ! i) \<and> fl_pos (center user_2 ! i)}"
proof (intro conjI)
  show "find_similarity user_1 user_2 =
           Inr (correlation (map (\<lambda>i. center user_1 ! i) (co_rated (center user_1) (center user_2)))
                            (map (\<lambda>i. center user_2 ! i) (co_rated (center user_1) (center user_2))))"
    by (rule find_similarity_co_rated [OF assms])
  show "center user_1 = map (\<lambda>x. fl_sub x (nanmean user_1)) user_1"
    by (rule center_def)
  show "center user_2 = map (\<lambda>x. fl_sub x (nanmean user_2)) user_2"
    by (rule center_def)
  show "nanmean user_1 = (if present user_1 = [] then NaN
                              else Fin (sum_list (present user_1) / real (length (present user_1))))"
    by (simp add: nanmean_def Let_def)
  show "nanmean user_2 = (if present user_2 = [] then NaN
                              else Fin (sum_list (present user_2) / real (length (present user_2))))"
    by (simp add: nanmean_def Let_def)
  show "set (co_rated (center user_1) (center user_2)) =
          {i. i < length user_1 \<and> fl_pos (center user_1 ! i) \<and> fl_pos (center user_2 ! i)}"
    by (auto simp: co_rated_def)
qed

theorem find_similarity_centers_then_restricts_witness:
  "find_similarity [Fin 1, Fin 5, Fin 6, NaN, NaN] [Fin 1, Fin 6, Fin 5, Fin 1, Fin 2]
     = Inr (correlation [Fin 1, Fin 2] [Fin 3, Fin 2])"
proof -
  have len: "length [Fin 1, Fin 5, Fin 6, NaN, NaN] = length [Fin 1, Fin 6, Fin 5, Fin 1, Fin 2]"
    by simp
  show ?thesis
    using find_similarity_centers_then_restricts [OF len, THEN conjunct1]
    by (simp add: center_example_1 center_example_2 co_rated_example)
qed

lemma fl_eq_refl_iff: "fl_eq s s \<longleftrightarrow> \<not> fl_isnan s"
  by (cases s) simp_all

lemma upt_2: "[0..<2] = [0, 1]"
  by (simp add: upt_rec)

lemma center_example_4: "center [Fin 1, Fin 3] = [Fin (- 1), Fin 1]"
  by (simp add: center_def nanmean_def)

lemma center_example_5: "center [Fin 2, Fin 6] = [Fin (- 2), Fin 2]"
  by (simp add: center_def nanmean_def)

lemma correlation_single: "correlation [Fin 1] [Fin 2] = NaN" "correlation [Fin 2] [Fin 1] = NaN"
  by (simp_all add: correlation_def fl_average_def fl_sum_def Let_def)

text \<open>
  C8. Claimed: for two users with a non-empty co-rated set, \<open>similarity(a, b)\<close> equals
  \<open>similarity(b, a)\<close>. What holds: for two rating vectors of the same length (two rows
  of the rating matrix), whatever the co-rated set, both calls return the same result
  \<open>s\<close>; the comparison \<^verbatim>\<open>similarity(a, b) == similarity(b, a)\<close> is true when \<open>s\<close> is a
  number and false when \<open>s\<close> is NaN.
\<close>

theorem find_similarity_symmetric:
  assumes "length a = length b"
  shows "\<exists>s. find_similarity a b = Inr s \<and> find_similarity b a = Inr s
             \<and> (fl_eq s s \<longleftrightarrow> \<not> fl_isnan s)"
proof -
  have "co_rated (center a) (center b) = co_rated (center b) (center a)"
    using assms by (intro co_rated_commute) simp
  then have sym: "find_similarity a b = find_similarity b a"
    using find_similarity_co_rated [OF assms] find_similarity_co_rated [OF assms [symmetric]]
    by (simp add: correlation_commute)
  obtain s where s: "find_similarity a b = Inr s"
    using find_similarity_co_rated [OF assms] by blast
  then have "find_similarity b a = Inr s"
    using sym by simp
  with s show ?thesis
    using fl_eq_refl_iff [of s] by blast
qed

theorem find_similarity_symmetric_witness:
  "co_rated (center [Fin 1, Fin 5, Fin 6, NaN, NaN]) (center [Fin 1, Fin 6, Fin 5, Fin 1, Fin 2]) \<noteq> []
   \<and> find_similarity [Fin 1, Fin 5, Fin 6, NaN, NaN] [Fin 1, Fin 6, Fin 5, Fin 1, Fin 2] = Inr (Fin 2)
   \<and> find_similarity [Fin 1, Fin 6, Fin 5, Fin 1, Fin 2] [Fin 1, Fin 5, Fin 6, NaN, NaN] = Inr (Fin 2)
   \<and> fl_eq (Fin 2) (Fin 2)"
proof -
  have len: "length [Fin 1, Fin 5, Fin 6, NaN, NaN] = length [Fin 1, Fin 6, Fin 5, Fin 1, Fin 2]"
    by simp
  have swapped: "find_similarity [Fin 1, Fin 6, Fin 5, Fin 1, Fin 2] [Fin 1, Fin 5, Fin 6, NaN, NaN] = Inr (Fin 2)"
    using find_similarity_co_rated [OF len [symmetric]]
    by (simp add: center_example_1 center_example_2 co_rated_example_swapped
        correlation_commute [of "[Fin 3, Fin 2]"] correlation_example)
  have "find_similarity [Fin 1, Fin 5, Fin 6, NaN, NaN] [Fin 1, Fin 6, Fin 5, Fin 1, Fin 2] = Inr (Fin 2)"
    using find_similarity_symmetric [OF len] swapped by auto
  moreover have "co_rated (center [Fin 1, Fin 5, Fin 6, NaN, NaN])
                   (center [Fin 1, Fin 6, Fin 5, Fin 1, Fin 2]) \<noteq> []"
    by (simp add: center_example_1 center_example_2 co_rated_example)
  ultimately show ?thesis
    using swapped by simp
qed

text \<open>
  C8 as claimed fails: for the ratings \<open>[1, 3]\<close> and \<open>[2, 6]\<close> the centered vectors are
  \<open>[-1, 1]\<close> and \<open>[-2, 2]\<close>, the co-rated set is the position 1, the restricted vectors
  \<open>[1]\<close> and \<open>[2]\<close> have no variance, and both calls return NaN, which \<^verbatim>\<open>==\<close> does not
  find equal to itself.
\<close>

theorem find_similarity_nan_not_equal:
  "co_rated (center [Fin 1, Fin 3]) (center [Fin 2, Fin 6]) = [1]
   \<and> find_similarity [Fin 1, Fin 3] [Fin 2, Fin 6] = Inr NaN
   \<and> find_similarity [Fin 2, Fin 6] [Fin 1, Fin 3] = Inr NaN
   \<and> \<not> fl_eq NaN NaN"
  by (simp add: find_similarity_def center_example_4 center_example_5 py_list_eq_int_def
      co_rated_def upt_2 correlation_single)

section \<open>Properties of the neighbourhood prediction and of the recommendations\<close>

lemma fl_add_assoc: "fl_add (fl_add a b) c = fl_add a (fl_add b c)"
  by (cases a; cases b; cases c) simp_all

lemma fl_add_zero: "fl_add a (Fin 0) = a"
  by (cases a) simp_all

lemma neighbour_loop_sum:
  "neighbour_loop R nn i acc =
     fl_add acc (fl_sum (map (\<lambda>r. fl_mul (snd r) (fl_sub (cell R (fst r) i) (nanmean (row_of R (fst r)))))
                           (filter (\<lambda>r. fl_pos (cell R (fst r) i)) nn)))"
proof (induction nn arbitrary: acc)
  case Nil
  then show ?case by (simp add: fl_sum_def fl_add_zero)
next
  case (Cons r nn)
  obtain j s where r: "r = (j, s)" by (cases r)
  show ?case
    unfolding r using Cons.IH
    by (simp add: fl_sum_def fl_add_assoc fl_mul_commute)
qed

lemma predicted_ratings_map:
  assumes "active_user \<in> set (index R)"
  shows "predicted_ratings R active_user nn cols =
           Inr (map (\<lambda>i. (i, positive_prediction R active_user nn i)) cols)"
  using assms
  by (induction cols) (simp_all add: loc_row_def positive_prediction_def neighbour_loop_sum)

lemma length_row_of [simp]: "length (row_of R u) = length (columns R)"
  by (simp add: row_of_def)

lemma find_similarity_rows:
  "\<exists>s. find_similarity (row_of R a) (row_of R i) = Inr s"
  using find_similarity_co_rated [of "row_of R a" "row_of R i"] by simp

lemma similarity_matrix_total:
  assumes "active_user \<in> set (index R)" and "set is \<subseteq> set (index R)"
  shows "\<exists>sims. similarity_matrix R active_user is = Inr sims \<and> map fst sims = is"
  using assms(2)
proof (induction "is")
  case Nil
  then show ?case by simp
next
  case (Cons i "is")
  from Cons obtain sims where sims: "similarity_matrix R active_user is = Inr sims" "map fst sims = is"
    by auto
  obtain s where "find_similarity (row_of R active_user) (row_of R i) = Inr s"
    using find_similarity_rows by blast
  with sims assms(1) Cons.prems show ?case
    by (simp add: loc_row_def)
qed

lemma nearest_neighbours_total:
  assumes "active_user \<in> set (index R)"
  shows "\<exists>nn. nearest_neighbours R active_user k = Inr nn"
proof -
  obtain sims where "similarity_matrix R active_user (index R) = Inr sims"
    using similarity_matrix_total [OF assms, of "index R"] by auto
  then show ?thesis by (simp add: nearest_neighbours_def)
qed

lemma ratings_A_simps:
  "index ratings_A = [1, 2]" "columns ratings_A = [1, 2, 3, 4, 5]"
  "row_of ratings_A 1 = [Fin 1, Fin 5, Fin 6, NaN, NaN]"
  "row_of ratings_A 2 = [Fin 1, Fin 6, Fin 5, Fin 1, Fin 2]"
  by (simp_all add: ratings_A_def frame_of_rows_def row_of_def)

lemma ratings_A_cells:
  "cell ratings_A 1 1 = Fin 1" "cell ratings_A 1 2 = Fin 5" "cell ratings_A 1 3 = Fin 6"
  "cell ratings_A 1 4 = NaN" "cell ratings_A 1 5 = NaN"
  "cell ratings_A 2 1 = Fin 1" "cell ratings_A 2 2 = Fin 6" "cell ratings_A 2 3 = Fin 5"
  "cell ratings_A 2 4 = Fin 1" "cell ratings_A 2 5 = Fin 2"
  by (simp_all add: ratings_A_def frame_of_rows_def)

lemma similarity_self_1:
  "find_similarity [Fin 1, Fin 5, Fin 6, NaN, NaN] [Fin 1, Fin 5, Fin 6, NaN, NaN] = Inr (Fin 0)"
  by (simp add: find_similarity_def center_example_1 py_list_eq_int_def upt_5
      correlation_def fl_average_def fl_sum_def Let_def real_sqrt_divide)

lemma similarity_1_2:
  "find_similarity [Fin 1, Fin 5, Fin 6, NaN, NaN] [Fin 1, Fin 6, Fin 5, Fin 1, Fin 2] = Inr (Fin 2)"
  by (simp add: find_similarity_def center_example_1 center_example_2 py_list_eq_int_def upt_5
      correlation_example)

lemma nanmean_examples:
  "nanmean [Fin 1, Fin 5, Fin 6, NaN, NaN] = Fin 4"
  "nanmean [Fin 1, Fin 6, Fin 5, Fin 1, Fin 2] = Fin 3"
  "nanmean [Fin 2, Fin 6, Fin 5, Fin 0, Fin 2] = Fin 3"
  by (simp_all add: nanmean_def)

lemma sort_example_1:
  "sort_values_desc [(1::int, Fin 0), (2, Fin 2)] = [(2, Fin 2), (1, Fin 0)]"
  by (simp add: sort_values_desc_def)

lemma nearest_neighbours_A:
  "nearest_neighbours ratings_A 1 10 = Inr [(2, Fin 2), (1, Fin 0)]"
  by (simp add: nearest_neighbours_def loc_row_def ratings_A_simps similarity_self_1 similarity_1_2
      sort_example_1 py_take_def)

lemma predictions_A:
  "find_nearest_neighbour_ratings ratings_A 1 10 =
     Inr [(1, Fin 0), (2, Fin 10), (3, Fin 8), (4, Fin 0), (5, Fin 2)]"
  by (simp add: find_nearest_neighbour_ratings_def nearest_neighbours_A loc_row_def
      ratings_A_simps ratings_A_cells nanmean_examples)

lemma watched_A: "watched_movies ratings_A 1 = [1, 2, 3]"
  by (simp add: watched_movies_def ratings_A_simps ratings_A_cells)

lemma sort_example_2:
  "sort_values_desc [(4::int, Fin 0), (5, Fin 2)] = [(5, Fin 2), (4, Fin 0)]"
  by (simp add: sort_values_desc_def)

lemma top_recommendations_A:
  "top_recommendations ratings_A 1 2 = Inr [(5, Fin 2), (4, Fin 0)]"
  by (simp add: top_recommendations_def predictions_A watched_A loc_row_def ratings_A_simps
      sort_example_2 py_take_def)

lemma set_sort_values_desc [simp]: "set (sort_values_desc rows) = set rows"
  by (auto simp: sort_values_desc_def)

lemma sorted_wrt_all_nan:
  "\<forall>v \<in> set vs. fl_isnan v \<Longrightarrow> sorted_wrt fl_ge vs"
proof (induction vs)
  case Nil
  then show ?case by simp
next
  case (Cons v vs)
  have "fl_ge v w" if "w \<in> set vs" for w
    using Cons.prems that by (cases w) auto
  with Cons show ?case by simp
qed

lemma fl_ge_nan: "fl_isnan w \<Longrightarrow> fl_ge v w"
  by (cases w) simp_all

lemma fl_ge_fin:
  "\<not> fl_isnan v \<Longrightarrow> \<not> fl_isnan w \<Longrightarrow> fl_ge v w \<longleftrightarrow> - fin_val v \<le> - fin_val w"
  by (cases v; cases w) simp_all

lemma descending_sorted_part:
  fixes rows :: "('a \<times> fl) list"
  assumes "\<forall>r \<in> set rows. \<not> fl_isnan (snd r)"
  shows "sorted_wrt fl_ge (map snd (sort_key (\<lambda>r. - fin_val (snd r)) rows))"
proof -
  let ?f = "\<lambda>r::'a \<times> fl. - fin_val (snd r)"
  have "sorted (map ?f (sort_key ?f rows))"
    by (rule sorted_sort_key)
  then have "sorted_wrt (\<lambda>x y. ?f x \<le> ?f y) (sort_key ?f rows)"
    by (simp add: sorted_map)
  then have "sorted_wrt (\<lambda>x y. fl_ge (snd x) (snd y)) (sort_key ?f rows)"
  proof (rule sorted_wrt_mono_rel [rotated])
    fix x y
    assume "x \<in> set (sort_key ?f rows)" "y \<in> set (sort_key ?f rows)" "?f x \<le> ?f y"
    then show "fl_ge (snd x) (snd y)"
      using assms by (simp add: fl_ge_fin)
  qed
  then show ?thesis
    by (simp add: sorted_wrt_map)
qed

lemma descending_sort_values_desc: "descending (map snd (sort_values_desc rows))"
proof -
  have "sorted_wrt fl_ge (map snd (sort_key (\<lambda>r. - fin_val (snd r))
          (filter (\<lambda>r. \<not> fl_isnan (snd r)) rows)))"
    by (rule descending_sorted_part) simp
  moreover have "sorted_wrt fl_ge (map snd (filter (\<lambda>r. fl_isnan (snd r)) rows))"
    by (rule sorted_wrt_all_nan) auto
  ultimately show ?thesis
    by (auto simp: descending_def sort_values_desc_def sorted_wrt_append fl_ge_nan)
qed

lemma py_take_is_take: "\<exists>m. py_take n xs = take m xs"
  by (auto simp: py_take_def)

lemma set_py_take: "set (py_take n xs) \<subseteq> set xs"
  using py_take_is_take [of n xs] by (auto dest: in_set_takeD)

lemma descending_py_take:
  assumes "descending (map snd xs)"
  shows "descending (map snd (py_take n xs))"
proof -
  obtain m where "py_take n xs = take m xs"
    using py_take_is_take by blast
  then show ?thesis
    using assms by (simp add: descending_def take_map [symmetric] sorted_wrt_take)
qed

lemma top_recommendations_Inr:
  assumes "top_recommendations R active_user n = Inr selected"
  shows "\<exists>predicted. find_nearest_neighbour_ratings R active_user 10 = Inr predicted \<and>
           selected = py_take n (sort_values_desc
                        (filter (\<lambda>r. fst r \<notin> set (watched_movies R active_user)) predicted))"
  using assms
  by (auto simp: top_recommendations_def split: sum.splits)

lemma find_top_n_Inr:
  assumes "find_top_n_recommendations R movies_data active_user n = Inr titles"
  shows "\<exists>selected. top_recommendations R active_user n = Inr selected \<and>
           titles = map snd (filter (\<lambda>row. fst row \<in> set (map fst selected)) movies_data)"
  using assms
  by (auto simp: find_top_n_recommendations_def split: sum.splits)

lemma find_nearest_neighbour_ratings_labels:
  assumes "find_nearest_neighbour_ratings R active_user k = Inr predicted"
  shows "map fst predicted = columns R"
proof -
  have "predicted_ratings R active_user nn cols = Inr ps \<Longrightarrow> map fst ps = cols" for nn cols ps
    by (induction cols arbitrary: ps) (auto split: sum.splits)
  then show ?thesis
    using assms by (auto simp: find_nearest_neighbour_ratings_def split: sum.splits)
qed

lemma ratings_B_simps:
  "index ratings_B = [1, 2]" "columns ratings_B = [1, 2, 3, 4, 5]"
  "row_of ratings_B 1 = [Fin 1, Fin 5, Fin 6, NaN, NaN]"
  "row_of ratings_B 2 = [Fin 2, Fin 6, Fin 5, Fin 0, Fin 2]"
  by (simp_all add: ratings_B_def frame_of_rows_def row_of_def)

lemma ratings_B_cells:
  "cell ratings_B 1 1 = Fin 1" "cell ratings_B 1 2 = Fin 5" "cell ratings_B 1 3 = Fin 6"
  "cell ratings_B 1 4 = NaN" "cell ratings_B 1 5 = NaN"
  "cell ratings_B 2 1 = Fin 2" "cell ratings_B 2 2 = Fin 6" "cell ratings_B 2 3 = Fin 5"
  "cell ratings_B 2 4 = Fin 0" "cell ratings_B 2 5 = Fin 2"
  by (simp_all add: ratings_B_def frame_of_rows_def)

lemma center_example_3:
  "center [Fin 2, Fin 6, Fin 5, Fin 0, Fin 2] = [Fin (- 1), Fin 3, Fin 2, Fin (- 3), Fin (- 1)]"
  by (simp add: center_def nanmean_def)

lemma similarity_1_3:
  "find_similarity [Fin 1, Fin 5, Fin 6, NaN, NaN] [Fin 2, Fin 6, Fin 5, Fin 0, Fin 2] = Inr (Fin 2)"
  by (simp add: find_similarity_def center_example_1 center_example_3 py_list_eq_int_def upt_5
      correlation_example)

lemma similarity_3_1:
  "find_similarity [Fin 2, Fin 6, Fin 5, Fin 0, Fin 2] [Fin 1, Fin 5, Fin 6, NaN, NaN] = Inr (Fin 2)"
  using find_similarity_co_rated [of "[Fin 1, Fin 5, Fin 6, NaN, NaN]" "[Fin 2, Fin 6, Fin 5, Fin 0, Fin 2]"]
    find_similarity_co_rated [of "[Fin 2, Fin 6, Fin 5, Fin 0, Fin 2]" "[Fin 1, Fin 5, Fin 6, NaN, NaN]"]
    co_rated_commute [of "center [Fin 1, Fin 5, Fin 6, NaN, NaN]" "center [Fin 2, Fin 6, Fin 5, Fin 0, Fin 2]"]
    correlation_commute similarity_1_3
  by simp

lemma similarity_self_3:
  "find_similarity [Fin 2, Fin 6, Fin 5, Fin 0, Fin 2] [Fin 2, Fin 6, Fin 5, Fin 0, Fin 2] = Inr (Fin 0)"
  by (simp add: find_similarity_def center_example_3 py_list_eq_int_def upt_5
      correlation_def fl_average_def fl_sum_def Let_def real_sqrt_divide)

lemma nearest_neighbours_B_1:
  "nearest_neighbours ratings_B 1 10 = Inr [(2, Fin 2), (1, Fin 0)]"
  by (simp add: nearest_neighbours_def loc_row_def ratings_B_simps similarity_self_1 similarity_1_3
      sort_example_1 py_take_def)

lemma predictions_B_1:
  "find_nearest_neighbour_ratings ratings_B 1 10 =
     Inr [(1, Fin 2), (2, Fin 10), (3, Fin 8), (4, Fin 4), (5, Fin 2)]"
  by (simp add: find_nearest_neighbour_ratings_def nearest_neighbours_B_1 loc_row_def
      ratings_B_simps ratings_B_cells nanmean_examples)

lemma sort_example_3:
  "sort_values_desc [(1::int, Fin 2), (2, Fin 0)] = [(1, Fin 2), (2, Fin 0)]"
  by (simp add: sort_values_desc_def)

lemma nearest_neighbours_B_2:
  "nearest_neighbours ratings_B 2 10 = Inr [(1, Fin 2), (2, Fin 0)]"
  by (simp add: nearest_neighbours_def loc_row_def ratings_B_simps similarity_self_3 similarity_3_1
      sort_example_3 py_take_def)

lemma predictions_B_2:
  "find_nearest_neighbour_ratings ratings_B 2 10 =
     Inr [(1, Fin (- 3)), (2, Fin 5), (3, Fin 7), (4, Fin 3), (5, Fin 3)]"
  by (simp add: find_nearest_neighbour_ratings_def nearest_neighbours_B_2 loc_row_def
      ratings_B_simps ratings_B_cells nanmean_examples)

lemma watched_B_2: "watched_movies ratings_B 2 = [1, 2, 3, 5]"
  by (simp add: watched_movies_def ratings_B_simps ratings_B_cells)

lemma top_recommendations_B_2:
  "top_recommendations ratings_B 2 1 = Inr [(4, Fin 3)]"
  by (simp add: top_recommendations_def predictions_B_2 watched_B_2 loc_row_def ratings_B_simps
      sort_values_desc_def py_take_def)

lemma find_top_n_A:
  "find_top_n_recommendations ratings_A [(4, ''A''), (5, ''B'')] 1 2 = Inr [''A'', ''B'']"
  by (simp add: find_top_n_recommendations_def top_recommendations_A)

lemma find_top_n_B:
  "find_top_n_recommendations ratings_B [(4, ''A''), (5, ''B'')] 2 1 = Inr [''A'']"
  by (simp add: find_top_n_recommendations_def top_recommendations_B_2)

text \<open>
  C3. Claimed: the predicted rating is the active user's mean plus a term for each
  selected neighbour that has rated the movie. The source tests
  \<^verbatim>\<open>user_item_rating_matrix.loc[j, i] > 0\<close>, so a neighbour whose rating for the movie is
  present but not positive is skipped. What holds: for an active user of the matrix the
  function returns, for every movie, the active user's mean over the entries that are not
  missing, plus \<open>similarity * (rating - neighbour's mean)\<close> for each selected neighbour
  whose rating for the movie is strictly positive; the other neighbours contribute nothing.
\<close>

theorem neighbourhood_prediction_formula:
  assumes "active_user \<in> set (index R)"
  shows "\<exists>nn. nearest_neighbours R active_user k = Inr nn \<and>
           find_nearest_neighbour_ratings R active_user k =
             Inr (map (\<lambda>i. (i, positive_prediction R active_user nn i)) (columns R))"
proof -
  obtain nn where "nearest_neighbours R active_user k = Inr nn"
    using nearest_neighbours_total [OF assms] by blast
  then show ?thesis
    using predicted_ratings_map [OF assms]
    by (simp add: find_nearest_neighbour_ratings_def)
qed

theorem neighbourhood_prediction_formula_witness:
  "1 \<in> set (index ratings_B)
   \<and> find_nearest_neighbour_ratings ratings_B 1 10 =
       Inr (map (\<lambda>i. (i, positive_prediction ratings_B 1 [(2, Fin 2), (1, Fin 0)] i)) [1, 2, 3, 4, 5])
   \<and> positive_prediction ratings_B 1 [(2, Fin 2), (1, Fin 0)] 4 = Fin 4"
proof -
  have h: "1 \<in> set (index ratings_B)"
    by (simp add: ratings_B_simps)
  have "positive_prediction ratings_B 1 [(2, Fin 2), (1, Fin 0)] 4 = Fin 4"
    by (simp add: positive_prediction_def ratings_B_cells ratings_B_simps nanmean_examples fl_sum_def)
  then show ?thesis
    using neighbourhood_prediction_formula [OF h, of 10] h
    by (simp add: nearest_neighbours_B_1 ratings_B_simps)
qed

text \<open>
  C3 as claimed fails: in \<open>ratings_B\<close> the neighbour 2 (similarity 2, mean 3) has rated
  movie 4 with 0. The
  source predicts 4 for movie 4, the mean of user 1 alone; with the term of every
  neighbour that has rated the movie the prediction would be \<open>4 + 2 * (0 - 3) = -2\<close>.
\<close>

theorem prediction_skips_zero_rating:
  "nearest_neighbours ratings_B 1 10 = Inr [(2, Fin 2), (1, Fin 0)]
   \<and> find_nearest_neighbour_ratings ratings_B 1 10 =
       Inr [(1, Fin 2), (2, Fin 10), (3, Fin 8), (4, Fin 4), (5, Fin 2)]
   \<and> cell ratings_B 2 4 = Fin 0
   \<and> \<not> fl_isnan (cell ratings_B 2 4)
   \<and> spec_prediction ratings_B 1 [(2, Fin 2), (1, Fin 0)] 4 = Fin (- 2)
   \<and> Fin 4 \<noteq> Fin (- 2)"
  by (simp add: nearest_neighbours_B_1 predictions_B_1 ratings_B_cells spec_prediction_def
      ratings_B_simps nanmean_examples fl_sum_def)

text \<open>
  C2. Claimed: the sequence returned by the top-n operation is in descending order of
  predicted rating. What holds: the rows selected as \<^verbatim>\<open>top_recommendations\<close> are predicted
  ratings in descending order (NaN last), and the returned titles are those of the rows of
  the movie table whose ID was selected, in the order of the movie table.
\<close>

theorem top_n_selection_descending:
  assumes "find_top_n_recommendations R movies_data active_user n = Inr titles"
  shows "\<exists>selected predicted.
           top_recommendations R active_user n = Inr selected \<and>
           find_nearest_neighbour_ratings R active_user 10 = Inr predicted \<and>
           set selected \<subseteq> set predicted \<and>
           descending (map snd selected) \<and>
           titles = map snd (filter (\<lambda>row. fst row \<in> set (map fst selected)) movies_data)"
proof -
  obtain selected where sel: "top_recommendations R active_user n = Inr selected"
    and titles: "titles = map snd (filter (\<lambda>row. fst row \<in> set (map fst selected)) movies_data)"
    using find_top_n_Inr [OF assms] by blast
  obtain predicted where pred: "find_nearest_neighbour_ratings R active_user 10 = Inr predicted"
    and selected: "selected = py_take n (sort_values_desc
                        (filter (\<lambda>r. fst r \<notin> set (watched_movies R active_user)) predicted))"
    using top_recommendations_Inr [OF sel] by blast
  have "set selected \<subseteq> set predicted"
    unfolding selected using set_py_take by fastforce
  moreover have "descending (map snd selected)"
    unfolding selected by (intro descending_py_take descending_sort_values_desc)
  ultimately show ?thesis
    using sel pred titles by blast
qed

theorem top_n_selection_descending_witness:
  "find_top_n_recommendations ratings_A [(4, ''A''), (5, ''B'')] 1 2 = Inr [''A'', ''B'']
   \<and> descending (map snd [(5::int, Fin 2), (4, Fin 0)])
   \<and> set [(5::int, Fin 2), (4, Fin 0)] \<subseteq> set [(1, Fin 0), (2, Fin 10), (3, Fin 8), (4, Fin 0), (5, Fin 2)]"
  using top_n_selection_descending [OF find_top_n_A]
  by (simp add: find_top_n_A top_recommendations_A predictions_A)

text \<open>
  C2 as claimed fails: in \<open>ratings_A\<close> the predictions for user 1 are 0 for movie 4 and
  2 for movie 5; the result lists the title of movie 4 before that of movie 5, as the
  movie table does, and the predicted values 0, 2 in the order of the result are not
  descending.
\<close>

theorem top_n_not_descending:
  "find_top_n_recommendations ratings_A [(4, ''A''), (5, ''B'')] 1 2 = Inr [''A'', ''B'']
   \<and> find_nearest_neighbour_ratings ratings_A 1 10 =
       Inr [(1, Fin 0), (2, Fin 10), (3, Fin 8), (4, Fin 0), (5, Fin 2)]
   \<and> \<not> descending [Fin 0, Fin 2]"
  by (simp add: find_top_n_recommendations_def top_recommendations_A predictions_A descending_def)

text \<open>
  C7. Claimed: no movie of the active user's own known ratings is returned. The movies
  dropped are those whose rating by the active user passes the test \<^verbatim>\<open>> 0\<close>. What
  holds: every selected movie is a column of the matrix for which the active user has no
  strictly positive rating, and the returned titles are those of the selected movies.
\<close>

theorem top_n_excludes_positive_ratings:
  assumes "find_top_n_recommendations R movies_data active_user n = Inr titles"
  shows "\<exists>selected.
           top_recommendations R active_user n = Inr selected \<and>
           titles = map snd (filter (\<lambda>row. fst row \<in> set (map fst selected)) movies_data) \<and>
           (\<forall>m \<in> set (map fst selected). m \<in> set (columns R) \<and> \<not> fl_pos (cell R active_user m))"
proof -
  obtain selected where sel: "top_recommendations R active_user n = Inr selected"
    and titles: "titles = map snd (filter (\<lambda>row. fst row \<in> set (map fst selected)) movies_data)"
    using find_top_n_Inr [OF assms] by blast
  obtain predicted where pred: "find_nearest_neighbour_ratings R active_user 10 = Inr predicted"
    and selected: "selected = py_take n (sort_values_desc
                        (filter (\<lambda>r. fst r \<notin> set (watched_movies R active_user)) predicted))"
    using top_recommendations_Inr [OF sel] by blast
  have cols: "map fst predicted = columns R"
    using find_nearest_neighbour_ratings_labels [OF pred] .
  have "m \<in> set (columns R) \<and> \<not> fl_pos (cell R active_user m)" if "m \<in> set (map fst selected)" for m
  proof -
    from that obtain r where r: "r \<in> set selected" "fst r = m" by auto
    then have "r \<in> set (filter (\<lambda>r. fst r \<notin> set (watched_movies R active_user)) predicted)"
      unfolding selected using set_py_take by fastforce
    then have "r \<in> set predicted" "fst r \<notin> set (watched_movies R active_user)" by auto
    then have "m \<in> set (columns R)" "m \<notin> set (watched_movies R active_user)"
      using r cols by (auto simp: cols [symmetric])
    then show ?thesis by (simp add: watched_movies_def)
  qed
  then show ?thesis
    using sel titles by blast
qed

theorem top_n_excludes_positive_ratings_witness:
  "find_top_n_recommendations ratings_A [(4, ''A''), (5, ''B'')] 1 2 = Inr [''A'', ''B'']
   \<and> \<not> fl_pos (cell ratings_A 1 4) \<and> \<not> fl_pos (cell ratings_A 1 5)"
  using top_n_excludes_positive_ratings [OF find_top_n_A]
  by (simp add: find_top_n_A top_recommendations_A)

text \<open>
  C7 as claimed fails: in \<open>ratings_B\<close> user 2 has rated movie 4 with 0, a known rating,
  and movie 4 is the recommendation for user 2.
\<close>

theorem top_n_includes_zero_rated:
  "find_top_n_recommendations ratings_B [(4, ''A''), (5, ''B'')] 2 1 = Inr [''A'']
   \<and> top_recommendations ratings_B 2 1 = Inr [(4, Fin 3)]
   \<and> cell ratings_B 2 4 = Fin 0
   \<and> \<not> fl_isnan (cell ratings_B 2 4)"
  by (simp add: find_top_n_B top_recommendations_B_2 ratings_B_cells)

section \<open>Properties of the matrix factorization\<close>

lemma length_vadd [simp]: "length (vadd u v) = min (length u) (length v)"
  by (simp add: vadd_def)

lemma length_vsub [simp]: "length (vsub u v) = min (length u) (length v)"
  by (simp add: vsub_def)

lemma length_smul [simp]: "length (smul c v) = length v"
  by (simp add: smul_def)

lemma nth_vadd: "k < length u \<Longrightarrow> k < length v \<Longrightarrow> vadd u v ! k = u ! k + v ! k"
  by (simp add: vadd_def)

lemma nth_vsub: "k < length u \<Longrightarrow> k < length v \<Longrightarrow> vsub u v ! k = u ! k - v ! k"
  by (simp add: vsub_def)

lemma nth_smul: "k < length v \<Longrightarrow> smul c v ! k = c * v ! k"
  by (simp add: smul_def)

lemma sgd_update_visited:
  assumes "cell (R_of s) i j = Fin r" and "0 < r"
  shows "vec_at (P_of (sgd_update gamma lamda i j s)) i =
           vadd (vec_at (P_of s) i)
             (smul gamma (vsub (smul (r - dot (vec_at (P_of s) i) (vec_at (Q_of s) j)) (vec_at (Q_of s) j))
                               (smul lamda (vec_at (P_of s) i))))"
    and "vec_at (Q_of (sgd_update gamma lamda i j s)) j =
           vadd (vec_at (Q_of s) j)
             (smul gamma (vsub (smul (r - dot (vec_at (P_of s) i) (vec_at (Q_of s) j))
                                  (vec_at (P_of (sgd_update gamma lamda i j s)) i))
                               (smul lamda (vec_at (Q_of s) j))))"
  using assms by (simp_all add: sgd_update_def Let_def)

lemma sgd_update_others:
  "i' \<noteq> i \<Longrightarrow> vec_at (P_of (sgd_update gamma lamda i j s)) i' = vec_at (P_of s) i'"
  "j' \<noteq> j \<Longrightarrow> vec_at (Q_of (sgd_update gamma lamda i j s)) j' = vec_at (Q_of s) j'"
  by (simp_all add: sgd_update_def Let_def)

lemma sgd_update_frame [simp]:
  "R_of (sgd_update gamma lamda i j s) = R_of s"
  "labels (P_of (sgd_update gamma lamda i j s)) = labels (P_of s)"
  "labels (Q_of (sgd_update gamma lamda i j s)) = labels (Q_of s)"
  by (simp_all add: sgd_update_def Let_def)

lemma foldl_invariant:
  assumes "I s" and "\<And>s x. x \<in> set xs \<Longrightarrow> I s \<Longrightarrow> I (f s x)"
  shows "I (foldl f s xs)"
  using assms by (induction xs arbitrary: s) auto

lemma sgd_update_invariant:
  assumes "training_invariant R K s" and "i \<in> set (index R)" and "j \<in> set (columns R)"
  shows "training_invariant R K (sgd_update gamma lamda i j s)"
proof (cases "fl_pos (cell (R_of s) i j)")
  case False
  then show ?thesis using assms by (simp add: sgd_update_def)
next
  case True
  then obtain r where r: "cell (R_of s) i j = Fin r" "0 < r"
    by (cases "cell (R_of s) i j") auto
  let ?s' = "sgd_update gamma lamda i j s"
  have len: "length (vec_at (P_of s) i) = K" "length (vec_at (Q_of s) j) = K"
    using assms by (auto simp: training_invariant_def shape_ok_def list_all_iff)
  have P: "length (vec_at (P_of ?s') i') = K" if "i' \<in> set (index R)" for i'
  proof (cases "i' = i")
    case True
    then show ?thesis using len by (simp add: sgd_update_visited(1) [OF r])
  next
    case False
    then show ?thesis
      using assms(1) that
      by (simp add: sgd_update_others training_invariant_def shape_ok_def list_all_iff)
  qed
  have Q: "length (vec_at (Q_of ?s') j') = K" if "j' \<in> set (columns R)" for j'
  proof (cases "j' = j")
    case True
    then show ?thesis using len P [OF assms(2)] by (simp add: sgd_update_visited(2) [OF r])
  next
    case False
    then show ?thesis
      using assms(1) that
      by (simp add: sgd_update_others training_invariant_def shape_ok_def list_all_iff)
  qed
  show ?thesis
    using assms(1) P Q
    by (simp add: training_invariant_def shape_ok_def list_all_iff)
qed

lemma sgd_epoch_invariant:
  assumes "training_invariant R K s"
  shows "training_invariant R K (sgd_epoch gamma lamda s)"
proof -
  have inner: "training_invariant R K (foldl (\<lambda>s j. sgd_update gamma lamda i j s) s' (columns R))"
    if "i \<in> set (index R)" "training_invariant R K s'" for i s'
  proof (rule foldl_invariant [where I = "training_invariant R K", OF that(2)])
    fix s'' j
    assume "j \<in> set (columns R)" "training_invariant R K s''"
    then show "training_invariant R K (sgd_update gamma lamda i j s'')"
      using that(1) by (intro sgd_update_invariant)
  qed
  have "training_invariant R K
          (foldl (\<lambda>s i. foldl (\<lambda>s j. sgd_update gamma lamda i j s) s (columns (R_of s))) s (index R))"
  proof (rule foldl_invariant [where I = "training_invariant R K", OF assms])
    fix s' i
    assume "i \<in> set (index R)" "training_invariant R K s'"
    then show "training_invariant R K
                 (foldl (\<lambda>s j. sgd_update gamma lamda i j s) s' (columns (R_of s')))"
      using inner [of i s'] by (simp add: training_invariant_def)
  qed
  then show ?thesis
    using assms by (simp add: sgd_epoch_def training_invariant_def)
qed

lemma sgd_epochs_invariant:
  assumes "training_invariant R K s"
  shows "training_invariant R K ((sgd_epoch gamma lamda ^^ m) s)"
  using assms by (induction m) (auto intro: sgd_epoch_invariant)

lemma initial_state_invariant: "training_invariant R K (initial_state R K rnd_P rnd_Q)"
  by (simp add: training_invariant_def shape_ok_def initial_state_def random_frame_def list_all_iff)

lemma sgd_loop_epochs:
  "\<exists>m\<le>n. sgd_loop n gamma lamda s = (sgd_epoch gamma lamda ^^ m) s
      \<and> (\<forall>k. 0 < k \<and> k < m \<longrightarrow> \<not> objective lamda ((sgd_epoch gamma lamda ^^ k) s) < 0.001)
      \<and> (m < n \<longrightarrow> 0 < m \<and> objective lamda ((sgd_epoch gamma lamda ^^ m) s) < 0.001)"
proof (induction n arbitrary: s)
  case 0
  then show ?case by simp
next
  case (Suc n)
  let ?e = "sgd_epoch gamma lamda"
  show ?case
  proof (cases "objective lamda (?e s) < 0.001")
    case True
    then have "sgd_loop (Suc n) gamma lamda s = (?e ^^ 1) s"
      by (simp add: Let_def)
    moreover have "\<forall>k. 0 < k \<and> k < (1::nat) \<longrightarrow> \<not> objective lamda ((?e ^^ k) s) < 0.001"
      by auto
    moreover have "objective lamda ((?e ^^ 1) s) < 0.001"
      using True by simp
    ultimately show ?thesis
      by (intro exI [of _ 1]) simp
  next
    case False
    obtain m where m: "m \<le> n" "sgd_loop n gamma lamda (?e s) = (?e ^^ m) (?e s)"
      "\<forall>k. 0 < k \<and> k < m \<longrightarrow> \<not> objective lamda ((?e ^^ k) (?e s)) < 0.001"
      "m < n \<longrightarrow> 0 < m \<and> objective lamda ((?e ^^ m) (?e s)) < 0.001"
      using Suc.IH [of "?e s"] by blast
    have 1: "sgd_loop (Suc n) gamma lamda s = (?e ^^ Suc m) s"
      using False m(2) by (simp add: Let_def funpow_swap1)
    have 2: "\<not> objective lamda ((?e ^^ k) s) < 0.001" if "0 < k" "k < Suc m" for k
    proof (cases k)
      case 0
      then show ?thesis using that by simp
    next
      case (Suc k')
      show ?thesis
      proof (cases "k' = 0")
        case True
        then show ?thesis using False Suc by simp
      next
        case False
        then have "\<not> objective lamda ((?e ^^ k') (?e s)) < 0.001"
          using m(3) that Suc by simp
        then show ?thesis using Suc by (simp add: funpow_swap1)
      qed
    qed
    have 3: "Suc m < Suc n \<longrightarrow> 0 < Suc m \<and> objective lamda ((?e ^^ Suc m) s) < 0.001"
      using m(4) by (simp add: funpow_swap1)
    show ?thesis
      using m(1) 1 2 3 by (intro exI [of _ "Suc m"]) blast
  qed
qed

lemma linalg_norm_squared: "(linalg_norm v)\<^sup>2 = sum_list (map (\<lambda>x. x\<^sup>2) v)"
proof -
  have "0 \<le> sum_list (map (\<lambda>x. x * x) v)"
    by (rule sum_list_nonneg) auto
  then show ?thesis
    by (simp add: linalg_norm_def power2_eq_square)
qed

lemma objective_inner:
  "foldl (\<lambda>e j. objective_term lamda s i j e) e cols =
     e + sum_list (map (\<lambda>j.
         (fin_val (cell (R_of s) i j) - dot (vec_at (P_of s) i) (vec_at (Q_of s) j))\<^sup>2
           + lamda * (sum_list (map (\<lambda>x. x\<^sup>2) (vec_at (P_of s) i))
                      + sum_list (map (\<lambda>x. x\<^sup>2) (vec_at (Q_of s) j))))
       (filter (\<lambda>j. fl_pos (cell (R_of s) i j)) cols))"
  by (induction cols arbitrary: e) (simp_all add: objective_term_def linalg_norm_squared)

lemma foldl_add_sum:
  fixes g :: "'a \<Rightarrow> real list"
  shows "foldl (\<lambda>e i. e + sum_list (g i)) e xs = e + sum_list (concat (map g xs))"
  by (induction xs arbitrary: e) simp_all

lemma objective_positive_objective: "objective lamda s = positive_objective lamda s"
  by (simp add: objective_def positive_objective_def objective_inner foldl_add_sum)

lemma mask_nonpositive_simps [simp]:
  "index (mask_nonpositive R) = index R"
  "columns (mask_nonpositive R) = columns R"
  "fl_pos (cell (mask_nonpositive R) i j) = fl_pos (cell R i j)"
  "fl_pos (cell R i j) \<Longrightarrow> cell (mask_nonpositive R) i j = cell R i j"
  "\<not> fl_pos (cell R i j) \<Longrightarrow> cell (mask_nonpositive R) i j = NaN"
  by (simp_all add: mask_nonpositive_def)

lemma sgd_update_mask:
  "sgd_update gamma lamda i j (s\<lparr>R_of := mask_nonpositive (R_of s)\<rparr>) =
     (sgd_update gamma lamda i j s)\<lparr>R_of := mask_nonpositive (R_of s)\<rparr>"
  by (simp add: sgd_update_def Let_def)

lemma foldl_commute:
  assumes "\<And>s x. f (h s) x = h (f s x)"
  shows "foldl f (h s) xs = h (foldl f s xs)"
  using assms by (induction xs arbitrary: s) simp_all

lemma foldl_R_of:
  assumes "\<And>s x. R_of (f s x) = R_of s"
  shows "R_of (foldl f s xs) = R_of s"
  using assms by (induction xs arbitrary: s) simp_all

lemma sgd_inner_R_of [simp]:
  "R_of (foldl (\<lambda>s j. sgd_update gamma lamda i j s) s cols) = R_of s"
  by (rule foldl_R_of) simp

lemma sgd_epoch_R_of [simp]: "R_of (sgd_epoch gamma lamda s) = R_of s"
  unfolding sgd_epoch_def by (rule foldl_R_of) simp

lemma sgd_inner_mask:
  "foldl (\<lambda>s j. sgd_update gamma lamda i j s) (s\<lparr>R_of := mask_nonpositive R'\<rparr>) cols =
     (foldl (\<lambda>s j. sgd_update gamma lamda i j s) s cols)\<lparr>R_of := mask_nonpositive R'\<rparr>"
    if "R_of s = R'"
  using that
proof (induction cols arbitrary: s)
  case Nil
  then show ?case by simp
next
  case (Cons j cols)
  have "sgd_update gamma lamda i j (s\<lparr>R_of := mask_nonpositive R'\<rparr>) =
          (sgd_update gamma lamda i j s)\<lparr>R_of := mask_nonpositive R'\<rparr>"
    using sgd_update_mask [of gamma lamda i j s] Cons.prems by simp
  then show ?case
    using Cons.IH [of "sgd_update gamma lamda i j s"] Cons.prems by simp
qed

lemma sgd_outer_mask:
  "foldl (\<lambda>s i. foldl (\<lambda>s j. sgd_update gamma lamda i j s) s (columns (R_of s)))
       (s\<lparr>R_of := mask_nonpositive R'\<rparr>) idx =
     (foldl (\<lambda>s i. foldl (\<lambda>s j. sgd_update gamma lamda i j s) s (columns (R_of s))) s idx)
       \<lparr>R_of := mask_nonpositive R'\<rparr>"
    if "R_of s = R'"
  using that
proof (induction idx arbitrary: s)
  case Nil
  then show ?case by simp
next
  case (Cons i idx)
  let ?t = "foldl (\<lambda>s j. sgd_update gamma lamda i j s) s (columns R')"
  have "R_of ?t = R'"
    using Cons.prems by simp
  then show ?case
    using Cons.IH [of ?t] Cons.prems sgd_inner_mask [OF Cons.prems, of gamma lamda i "columns R'"]
    by simp
qed

lemma sgd_epoch_mask:
  "sgd_epoch gamma lamda (s\<lparr>R_of := mask_nonpositive (R_of s)\<rparr>) =
     (sgd_epoch gamma lamda s)\<lparr>R_of := mask_nonpositive (R_of s)\<rparr>"
  using sgd_outer_mask [of s "R_of s" gamma lamda "index (R_of s)"]
  by (simp add: sgd_epoch_def)

lemma objective_mask:
  "objective lamda (s\<lparr>R_of := mask_nonpositive (R_of s)\<rparr>) = objective lamda s"
proof -
  have "objective_term lamda (s\<lparr>R_of := mask_nonpositive (R_of s)\<rparr>) i j e =
          objective_term lamda s i j e" for i j e
    by (simp add: objective_term_def)
  then show ?thesis
    by (simp add: objective_def)
qed

lemma sgd_loop_mask:
  "sgd_loop n gamma lamda (s\<lparr>R_of := mask_nonpositive (R_of s)\<rparr>) =
     (sgd_loop n gamma lamda s)\<lparr>R_of := mask_nonpositive (R_of s)\<rparr>"
proof (induction n arbitrary: s)
  case 0
  then show ?case by simp
next
  case (Suc n)
  let ?s' = "sgd_epoch gamma lamda s"
  have "objective lamda (?s'\<lparr>R_of := mask_nonpositive (R_of s)\<rparr>) = objective lamda ?s'"
    using objective_mask [of lamda ?s'] by simp
  then show ?case
    using Suc.IH [of ?s'] by (simp add: sgd_epoch_mask Let_def)
qed

lemma perform_matrix_factorization_mask:
  "perform_matrix_factorization (mask_nonpositive R) K steps gamma lamda rnd_P rnd_Q =
     perform_matrix_factorization R K steps gamma lamda rnd_P rnd_Q"
proof -
  have "initial_state (mask_nonpositive R) K rnd_P rnd_Q =
          (initial_state R K rnd_P rnd_Q)\<lparr>R_of := mask_nonpositive (R_of (initial_state R K rnd_P rnd_Q))\<rparr>"
    by (simp add: initial_state_def)
  then show ?thesis
    by (simp add: perform_matrix_factorization_def train_def sgd_loop_mask Let_def)
qed

lemma set_missing_other_row: "j \<noteq> u \<Longrightarrow> row_of (set_missing R u m) j = row_of R j"
  by (simp add: set_missing_def row_of_def)

lemma neighbour_loop_set_missing:
  assumes "\<not> fl_pos (cell R u m)"
  shows "neighbour_loop (set_missing R u m) nn m predicted = neighbour_loop R nn m predicted"
proof (induction nn arbitrary: predicted)
  case Nil
  then show ?case by simp
next
  case (Cons r nn)
  obtain j s where r: "r = (j, s)" by (cases r)
  show ?case
  proof (cases "j = u")
    case True
    then show ?thesis
      using assms Cons.IH by (simp add: r set_missing_def)
  next
    case False
    then have "cell (set_missing R u m) j m = cell R j m"
      by (simp add: set_missing_def)
    then show ?thesis
      using False Cons.IH by (simp add: r set_missing_other_row)
  qed
qed

lemma ratings_C_simps:
  "index ratings_C = [1]" "columns ratings_C = [1]" "cell ratings_C 1 1 = Fin 0"
  by (simp_all add: ratings_C_def frame_of_rows_def)

lemma ratings_D_simps:
  "index ratings_D = [1]" "columns ratings_D = [1]" "cell ratings_D 1 1 = Fin 3"
  by (simp_all add: ratings_D_def frame_of_rows_def)

lemma initial_state_simps:
  "R_of (initial_state R K rnd_P rnd_Q) = R"
  "labels (P_of (initial_state R K rnd_P rnd_Q)) = index R"
  "labels (Q_of (initial_state R K rnd_P rnd_Q)) = columns R"
  "vec_at (P_of (initial_state R (Suc 0) (const_rand a) rnd_Q)) i = [a]"
  "vec_at (Q_of (initial_state R (Suc 0) rnd_P (const_rand b))) j = [b]"
  by (simp_all add: initial_state_def random_frame_def const_rand_def)

lemma sgd_loop_numeral:
  "sgd_loop (numeral k) gamma lamda s =
     (let s' = sgd_epoch gamma lamda s
      in if objective lamda s' < 0.001 then s' else sgd_loop (pred_numeral k) gamma lamda s')"
  by (simp add: numeral_eq_Suc)

lemma sgd_epoch_C:
  "sgd_epoch gamma lamda (initial_state ratings_C (Suc 0) (const_rand 1) (const_rand 1)) =
     initial_state ratings_C (Suc 0) (const_rand 1) (const_rand 1)"
  by (simp add: sgd_epoch_def sgd_update_def initial_state_simps ratings_C_simps)

lemma objective_C:
  "objective lamda (initial_state ratings_C (Suc 0) (const_rand 1) (const_rand 1)) = 0"
  by (simp add: objective_def objective_term_def initial_state_simps ratings_C_simps)

lemma spec_objective_C:
  "spec_objective (1/50) (initial_state ratings_C (Suc 0) (const_rand 1) (const_rand 1)) = 26/25"
  by (simp add: spec_objective_def initial_state_simps ratings_C_simps dot_def)

lemma sgd_epoch_D:
  "sgd_epoch (1/2) 0 (initial_state ratings_D (Suc 0) (const_rand 1) (const_rand 3)) =
     initial_state ratings_D (Suc 0) (const_rand 1) (const_rand 3)"
  by (simp add: sgd_epoch_def sgd_update_def initial_state_simps ratings_D_simps dot_def
      vadd_def vsub_def smul_def Let_def initial_state_def random_frame_def const_rand_def
      fun_upd_idem)

lemma objective_D:
  "objective 0 (initial_state ratings_D (Suc 0) (const_rand 1) (const_rand 3)) = 0"
  by (simp add: objective_def objective_term_def initial_state_simps ratings_D_simps dot_def)

text \<open>
  C5. For a rating visited in an epoch (an entry \<open>r\<close> of user \<open>i\<close> and movie \<open>j\<close> that
  passes the test \<^verbatim>\<open>> 0\<close>), with factor vectors of length \<open>K\<close> and the error
  \<open>e = r - P[i] \<bullet> Q[j]\<close> taken before the update: every component of the user vector
  becomes \<open>P[i] + gamma * (e * Q[j] - lamda * P[i])\<close>, and every component of the movie
  vector becomes \<open>Q[j] + gamma * (e * P'[i] - lamda * Q[j])\<close>, where \<open>P'[i]\<close> is the user
  vector after its update in the same step.
\<close>

theorem sgd_update_sequential:
  assumes "cell (R_of s) i j = Fin r" and "0 < r"
    and "length (vec_at (P_of s) i) = K" and "length (vec_at (Q_of s) j) = K" and "k < K"
  shows "vec_at (P_of (sgd_update gamma lamda i j s)) i ! k =
           vec_at (P_of s) i ! k
             + gamma * ((r - dot (vec_at (P_of s) i) (vec_at (Q_of s) j)) * vec_at (Q_of s) j ! k
                        - lamda * vec_at (P_of s) i ! k)
         \<and> vec_at (Q_of (sgd_update gamma lamda i j s)) j ! k =
           vec_at (Q_of s) j ! k
             + gamma * ((r - dot (vec_at (P_of s) i) (vec_at (Q_of s) j))
                          * vec_at (P_of (sgd_update gamma lamda i j s)) i ! k
                        - lamda * vec_at (Q_of s) j ! k)
         \<and> length (vec_at (P_of (sgd_update gamma lamda i j s)) i) = K
         \<and> length (vec_at (Q_of (sgd_update gamma lamda i j s)) j) = K"
proof -
  let ?s' = "sgd_update gamma lamda i j s"
  have P: "length (vec_at (P_of ?s') i) = K"
    using assms by (simp add: sgd_update_visited(1))
  have Q: "length (vec_at (Q_of ?s') j) = K"
    using assms P by (simp add: sgd_update_visited(2) [OF assms(1,2)])
  have "vec_at (P_of ?s') i ! k =
          vec_at (P_of s) i ! k
             + gamma * ((r - dot (vec_at (P_of s) i) (vec_at (Q_of s) j)) * vec_at (Q_of s) j ! k
                        - lamda * vec_at (P_of s) i ! k)"
    using assms by (simp add: sgd_update_visited(1) nth_vadd nth_vsub nth_smul)
  moreover have "vec_at (Q_of ?s') j ! k =
           vec_at (Q_of s) j ! k
             + gamma * ((r - dot (vec_at (P_of s) i) (vec_at (Q_of s) j))
                          * vec_at (P_of ?s') i ! k
                        - lamda * vec_at (Q_of s) j ! k)"
    using assms P
    by (subst sgd_update_visited(2) [OF assms(1,2)]) (simp add: nth_vadd nth_vsub nth_smul)
  ultimately show ?thesis
    using P Q by blast
qed

text \<open>
  With \<open>r = 3\<close>, both vectors \<open>[1]\<close>, \<open>gamma = 1/2\<close> and \<open>lamda = 0\<close> the error is 2, the
  user vector becomes \<open>[2]\<close> and the movie vector \<open>[1 + 1/2 * (2 * 2)] = [3]\<close>; an
  update from the old user vector would give \<open>[2]\<close>.
\<close>

theorem sgd_update_sequential_witness:
  "vec_at (P_of (sgd_update (1/2) 0 1 1 (initial_state ratings_D (Suc 0) (const_rand 1) (const_rand 1)))) 1 ! 0 = 2
   \<and> vec_at (Q_of (sgd_update (1/2) 0 1 1 (initial_state ratings_D (Suc 0) (const_rand 1) (const_rand 1)))) 1 ! 0 = 3"
proof -
  let ?s = "initial_state ratings_D (Suc 0) (const_rand 1) (const_rand 1)"
  have h1: "cell (R_of ?s) 1 1 = Fin 3"
    by (simp add: initial_state_simps ratings_D_simps)
  have h2: "(0::real) < 3" by simp
  have h3: "length (vec_at (P_of ?s) 1) = Suc 0" "length (vec_at (Q_of ?s) 1) = Suc 0"
    by (simp_all add: initial_state_simps)
  have h4: "0 < Suc 0" by simp
  have P: "vec_at (P_of (sgd_update (1/2) 0 1 1 ?s)) 1 ! 0 = 2"
    using sgd_update_sequential [OF h1 h2 h3 h4, of "1/2" 0, THEN conjunct1]
    by (simp add: initial_state_simps dot_def)
  have "vec_at (Q_of (sgd_update (1/2) 0 1 1 ?s)) 1 ! 0 = 3"
    using sgd_update_sequential [OF h1 h2 h3 h4, of "1/2" 0, THEN conjunct2, THEN conjunct1] P
    by (simp add: initial_state_simps dot_def)
  with P show ?thesis by simp
qed

text \<open>
  C6. Claimed: at most \<open>steps\<close> epochs; after each epoch the objective, a sum over the
  known ratings, is computed and the loop ends early when it is below 0.001; the factor
  matrices are returned in all cases. The sum the source computes ranges over the entries
  that pass the test \<^verbatim>\<open>> 0\<close>. What holds: the training always returns, its result is
  that of \<open>m\<close> epochs for some \<open>m\<close> that is at most \<open>steps\<close>, the objective was not below
  0.001 after any earlier epoch, it is below 0.001 after the last one when \<open>m\<close> is
  less than \<open>steps\<close>, and the objective is the sum over the strictly positive ratings of
  the squared error plus \<open>lamda\<close> times the squared norms of the two factor vectors.
\<close>

theorem training_runs_at_most_steps_epochs:
  "\<exists>m. m \<le> nat steps
       \<and> train R K steps gamma lamda rnd_P rnd_Q =
           (sgd_epoch gamma lamda ^^ m) (initial_state R K rnd_P rnd_Q)
       \<and> perform_matrix_factorization R K steps gamma lamda rnd_P rnd_Q =
           (P_of ((sgd_epoch gamma lamda ^^ m) (initial_state R K rnd_P rnd_Q)),
            Q_of ((sgd_epoch gamma lamda ^^ m) (initial_state R K rnd_P rnd_Q)))
       \<and> (\<forall>k. 0 < k \<and> k < m \<longrightarrow>
              \<not> objective lamda ((sgd_epoch gamma lamda ^^ k) (initial_state R K rnd_P rnd_Q)) < 0.001)
       \<and> (m < nat steps \<longrightarrow>
              0 < m \<and> objective lamda ((sgd_epoch gamma lamda ^^ m) (initial_state R K rnd_P rnd_Q)) < 0.001)
       \<and> (\<forall>s. objective lamda s = positive_objective lamda s)"
proof -
  obtain m where "m \<le> nat steps"
    "sgd_loop (nat steps) gamma lamda (initial_state R K rnd_P rnd_Q) =
       (sgd_epoch gamma lamda ^^ m) (initial_state R K rnd_P rnd_Q)"
    "\<forall>k. 0 < k \<and> k < m \<longrightarrow>
        \<not> objective lamda ((sgd_epoch gamma lamda ^^ k) (initial_state R K rnd_P rnd_Q)) < 0.001"
    "m < nat steps \<longrightarrow>
        0 < m \<and> objective lamda ((sgd_epoch gamma lamda ^^ m) (initial_state R K rnd_P rnd_Q)) < 0.001"
    using sgd_loop_epochs [of "nat steps" gamma lamda "initial_state R K rnd_P rnd_Q"] by blast
  moreover from this have "perform_matrix_factorization R K steps gamma lamda rnd_P rnd_Q =
           (P_of ((sgd_epoch gamma lamda ^^ m) (initial_state R K rnd_P rnd_Q)),
            Q_of ((sgd_epoch gamma lamda ^^ m) (initial_state R K rnd_P rnd_Q)))"
    by (simp add: perform_matrix_factorization_def train_def Let_def)
  moreover have "\<forall>s. objective lamda s = positive_objective lamda s"
    by (simp add: objective_positive_objective)
  ultimately show ?thesis
    unfolding train_def by blast
qed

theorem training_runs_at_most_steps_epochs_witness:
  "(\<exists>m\<le>nat 5. train ratings_D (Suc 0) 5 (1/2) 0 (const_rand 1) (const_rand 3) =
       (sgd_epoch (1/2) 0 ^^ m) (initial_state ratings_D (Suc 0) (const_rand 1) (const_rand 3)))
   \<and> train ratings_D (Suc 0) 5 (1/2) 0 (const_rand 1) (const_rand 3) =
       (sgd_epoch (1/2) 0 ^^ 1) (initial_state ratings_D (Suc 0) (const_rand 1) (const_rand 3))
   \<and> objective 0 ((sgd_epoch (1/2) 0 ^^ 1) (initial_state ratings_D (Suc 0) (const_rand 1) (const_rand 3))) < 0.001"
proof -
  have "train ratings_D (Suc 0) 5 (1/2) 0 (const_rand 1) (const_rand 3) =
       (sgd_epoch (1/2) 0 ^^ 1) (initial_state ratings_D (Suc 0) (const_rand 1) (const_rand 3))"
    by (simp add: train_def sgd_loop_numeral sgd_epoch_D objective_D Let_def)
  moreover have "objective 0 ((sgd_epoch (1/2) 0 ^^ 1)
      (initial_state ratings_D (Suc 0) (const_rand 1) (const_rand 3))) < 0.001"
    by (simp add: sgd_epoch_D objective_D)
  ultimately show ?thesis
    using training_runs_at_most_steps_epochs [of 5 ratings_D "Suc 0" "1/2" 0 "const_rand 1" "const_rand 3"]
    by blast
qed

text \<open>
  C6 as claimed fails: for the matrix \<open>ratings_C\<close>, whose only rating is 0, with all
  factors 1 and
  \<open>lamda = 1/50\<close>: the objective the source computes after the first epoch is 0, so the
  loop ends after the first of 5 epochs, while the sum over the known ratings is
  \<open>(0 - 1)\<^sup>2 + 1/50 * (1 + 1) = 26/25\<close>.
\<close>

theorem objective_skips_zero_rating:
  "train ratings_C (Suc 0) 5 (1/1000) (1/50) (const_rand 1) (const_rand 1) =
     sgd_epoch (1/1000) (1/50) (initial_state ratings_C (Suc 0) (const_rand 1) (const_rand 1))
   \<and> cell ratings_C 1 1 = Fin 0
   \<and> objective (1/50)
       (sgd_epoch (1/1000) (1/50) (initial_state ratings_C (Suc 0) (const_rand 1) (const_rand 1))) = 0
   \<and> spec_objective (1/50)
       (sgd_epoch (1/1000) (1/50) (initial_state ratings_C (Suc 0) (const_rand 1) (const_rand 1))) = 26/25
   \<and> \<not> (26/25 :: real) < 0.001"
proof -
  have "train ratings_C (Suc 0) 5 (1/1000) (1/50) (const_rand 1) (const_rand 1) =
     sgd_epoch (1/1000) (1/50) (initial_state ratings_C (Suc 0) (const_rand 1) (const_rand 1))"
    by (simp add: train_def sgd_loop_numeral sgd_epoch_C objective_C Let_def)
  then show ?thesis
    by (simp add: sgd_epoch_C objective_C spec_objective_C ratings_C_simps)
qed

lemma B_missing_simps:
  "index (set_missing ratings_B 2 4) = [1, 2]"
  "columns (set_missing ratings_B 2 4) = [1, 2, 3, 4, 5]"
  "row_of (set_missing ratings_B 2 4) 1 = [Fin 1, Fin 5, Fin 6, NaN, NaN]"
  "row_of (set_missing ratings_B 2 4) 2 = [Fin 2, Fin 6, Fin 5, NaN, Fin 2]"
  by (simp_all add: set_missing_def row_of_def ratings_B_simps ratings_B_cells)

lemma B_missing_cells:
  "cell (set_missing ratings_B 2 4) 1 1 = Fin 1" "cell (set_missing ratings_B 2 4) 1 2 = Fin 5"
  "cell (set_missing ratings_B 2 4) 1 3 = Fin 6" "cell (set_missing ratings_B 2 4) 1 4 = NaN"
  "cell (set_missing ratings_B 2 4) 1 5 = NaN"
  "cell (set_missing ratings_B 2 4) 2 1 = Fin 2" "cell (set_missing ratings_B 2 4) 2 2 = Fin 6"
  "cell (set_missing ratings_B 2 4) 2 3 = Fin 5" "cell (set_missing ratings_B 2 4) 2 4 = NaN"
  "cell (set_missing ratings_B 2 4) 2 5 = Fin 2"
  by (simp_all add: set_missing_def ratings_B_cells)

lemma center_example_6:
  "center [Fin 2, Fin 6, Fin 5, NaN, Fin 2] = [Fin (- (7/4)), Fin (9/4), Fin (5/4), NaN, Fin (- (7/4))]"
  by (simp add: center_def nanmean_def)

lemma correlation_example_2: "correlation [Fin 1, Fin 2] [Fin (9/4), Fin (5/4)] = Fin 2"
  by (simp add: correlation_def fl_average_def fl_sum_def Let_def real_sqrt_divide)

lemma similarity_1_6:
  "find_similarity [Fin 1, Fin 5, Fin 6, NaN, NaN] [Fin 2, Fin 6, Fin 5, NaN, Fin 2] = Inr (Fin 2)"
  by (simp add: find_similarity_def center_example_1 center_example_6 py_list_eq_int_def upt_5
      correlation_example_2)

lemma nanmean_example_6: "nanmean [Fin 2, Fin 6, Fin 5, NaN, Fin 2] = Fin (15/4)"
  by (simp add: nanmean_def)

lemma nearest_neighbours_B_missing:
  "nearest_neighbours (set_missing ratings_B 2 4) 1 10 = Inr [(2, Fin 2), (1, Fin 0)]"
  by (simp add: nearest_neighbours_def loc_row_def B_missing_simps similarity_self_1 similarity_1_6
      sort_example_1 py_take_def)

lemma predictions_B_missing:
  "find_nearest_neighbour_ratings (set_missing ratings_B 2 4) 1 10 =
     Inr [(1, Fin (1/2)), (2, Fin (17/2)), (3, Fin (13/2)), (4, Fin 4), (5, Fin (1/2))]"
  by (simp add: find_nearest_neighbour_ratings_def nearest_neighbours_B_missing loc_row_def
      B_missing_simps B_missing_cells nanmean_examples nanmean_example_6)

text \<open>
  C9. Claimed: both engines treat a rating that is present and not greater than 0 exactly
  as a missing one. What holds: the tests \<^verbatim>\<open>> 0\<close> of both engines treat such a rating
  as a missing one. In the neighbourhood prediction the neighbour with such a rating for a
  movie leaves the running prediction of that movie as it is, and the loop for that movie
  gives, for the same neighbours and the same seed, the same value on the matrix in which
  the entry is missing; the rating still counts in the means and in the similarities. In
  the training the update step and the term of the objective for such an entry change
  nothing, and training on the matrix in which these entries are replaced by NaN returns
  the same factor matrices.
\<close>

theorem nonpositive_rating_treated_as_missing:
  assumes "cell R u m = Fin r" and "r \<le> 0"
  shows "neighbour_loop R ((u, sim) # nn) m predicted = neighbour_loop R nn m predicted
         \<and> neighbour_loop (set_missing R u m) nn' m predicted = neighbour_loop R nn' m predicted
         \<and> (R_of s = R \<longrightarrow> sgd_update gamma lamda u m s = s \<and> objective_term lamda s u m e = e)
         \<and> cell (mask_nonpositive R) u m = NaN
         \<and> perform_matrix_factorization (mask_nonpositive R) K steps gamma lamda rnd_P rnd_Q =
             perform_matrix_factorization R K steps gamma lamda rnd_P rnd_Q"
proof -
  have "\<not> fl_pos (cell R u m)"
    using assms by simp
  then show ?thesis
    by (simp add: sgd_update_def objective_term_def perform_matrix_factorization_mask
        neighbour_loop_set_missing)
qed

theorem nonpositive_rating_treated_as_missing_witness:
  "cell ratings_B 2 4 = Fin 0
   \<and> neighbour_loop ratings_B [(2, Fin 2), (1, Fin 0)] 4 (Fin 4) = neighbour_loop ratings_B [(1, Fin 0)] 4 (Fin 4)
   \<and> neighbour_loop (set_missing ratings_B 2 4) [(2, Fin 2), (1, Fin 0)] 4 (Fin 4)
       = neighbour_loop ratings_B [(2, Fin 2), (1, Fin 0)] 4 (Fin 4)
   \<and> sgd_update (1/1000) (1/50) 2 4 (initial_state ratings_B (Suc 0) (const_rand 1) (const_rand 1)) =
       initial_state ratings_B (Suc 0) (const_rand 1) (const_rand 1)
   \<and> cell (mask_nonpositive ratings_B) 2 4 = NaN"
proof -
  have h1: "cell ratings_B 2 4 = Fin 0"
    by (simp add: ratings_B_cells)
  have h2: "(0::real) \<le> 0" by simp
  show ?thesis
    using nonpositive_rating_treated_as_missing [OF h1 h2,
        of "Fin 2" "[(1, Fin 0)]" "Fin 4" "[(2, Fin 2), (1, Fin 0)]"
           "initial_state ratings_B (Suc 0) (const_rand 1) (const_rand 1)" "1/1000" "1/50"] h1
    by (simp add: initial_state_simps)
qed

text \<open>
  C9 as claimed fails for the neighbourhood engine: in \<open>ratings_B\<close> user 2 has rated
  movie 4 with 0. With that entry missing the mean of user 2 is 15/4 instead of 3, and
  the predictions for user 1 are other ones: 1/2 instead of 2 for movie 1.
\<close>

theorem zero_rating_counts_in_neighbour_mean:
  "cell ratings_B 2 4 = Fin 0
   \<and> cell (set_missing ratings_B 2 4) 2 4 = NaN
   \<and> find_nearest_neighbour_ratings ratings_B 1 10 =
       Inr [(1, Fin 2), (2, Fin 10), (3, Fin 8), (4, Fin 4), (5, Fin 2)]
   \<and> find_nearest_neighbour_ratings (set_missing ratings_B 2 4) 1 10 =
       Inr [(1, Fin (1/2)), (2, Fin (17/2)), (3, Fin (13/2)), (4, Fin 4), (5, Fin (1/2))]
   \<and> Fin 2 \<noteq> Fin (1/2)"
  by (simp add: ratings_B_cells B_missing_cells predictions_B_1 predictions_B_missing)

text \<open>
  C10. The training leaves the rating matrix as it was, and the factor matrices it
  returns have the row labels of \<open>R\<close> (\<open>P\<close> the user IDs, \<open>Q\<close> the movie IDs) with a
  vector of length \<open>K\<close> for each label; the same holds after every epoch.
\<close>

theorem training_keeps_shape_and_ratings:
  "R_of (train R K steps gamma lamda rnd_P rnd_Q) = R
   \<and> perform_matrix_factorization R K steps gamma lamda rnd_P rnd_Q =
       (P_of (train R K steps gamma lamda rnd_P rnd_Q), Q_of (train R K steps gamma lamda rnd_P rnd_Q))
   \<and> labels (P_of (train R K steps gamma lamda rnd_P rnd_Q)) = index R
   \<and> labels (Q_of (train R K steps gamma lamda rnd_P rnd_Q)) = columns R
   \<and> (\<forall>i \<in> set (index R). length (vec_at (P_of (train R K steps gamma lamda rnd_P rnd_Q)) i) = K)
   \<and> (\<forall>j \<in> set (columns R). length (vec_at (Q_of (train R K steps gamma lamda rnd_P rnd_Q)) j) = K)
   \<and> (\<forall>m. R_of ((sgd_epoch gamma lamda ^^ m) (initial_state R K rnd_P rnd_Q)) = R
          \<and> shape_ok R K ((sgd_epoch gamma lamda ^^ m) (initial_state R K rnd_P rnd_Q)))"
proof -
  let ?init = "initial_state R K rnd_P rnd_Q"
  have epochs: "training_invariant R K ((sgd_epoch gamma lamda ^^ m) ?init)" for m
    by (intro sgd_epochs_invariant initial_state_invariant)
  obtain m where "train R K steps gamma lamda rnd_P rnd_Q = (sgd_epoch gamma lamda ^^ m) ?init"
    using sgd_loop_epochs [of "nat steps" gamma lamda ?init] by (auto simp: train_def)
  then have "training_invariant R K (train R K steps gamma lamda rnd_P rnd_Q)"
    using epochs [of m] by simp
  then show ?thesis
    using epochs
    by (simp add: training_invariant_def shape_ok_def list_all_iff perform_matrix_factorization_def Let_def)
qed

theorem training_keeps_shape_and_ratings_witness:
  "1 \<in> set (index ratings_D)
   \<and> R_of (train ratings_D (Suc 0) 5 (1/2) 0 (const_rand 1) (const_rand 3)) = ratings_D
   \<and> labels (P_of (train ratings_D (Suc 0) 5 (1/2) 0 (const_rand 1) (const_rand 3))) = [1]
   \<and> length (vec_at (P_of (train ratings_D (Suc 0) 5 (1/2) 0 (const_rand 1) (const_rand 3))) 1) = Suc 0
   \<and> length (vec_at (Q_of (train ratings_D (Suc 0) 5 (1/2) 0 (const_rand 1) (const_rand 3))) 1) = Suc 0"
  using training_keeps_shape_and_ratings [of ratings_D "Suc 0" 5 "1/2" 0 "const_rand 1" "const_rand 3"]
  by (simp add: ratings_D_simps)

end
